theory Spec2Isabelle
  imports Complex_Main "HOL-Library.Monad_Syntax"
begin

section \<open>Numbers of the source language\<close>

text \<open>
  The calculator module is JavaScript; every number in it is an IEEE double.  A finite
  double is a real number here, and the functions of the module are given twice.  First
  come the formulas as the source writes them, in exact arithmetic: validation, the
  conversions, the error estimate and the main calculation are stated on these.  The
  destination point and the distance follow a second time with every operation rounded
  to a double (\<open>calculateTargetCoordinate_fl\<close>, \<open>calculateDistance_fl\<close>, section
  ``Doubles''): where a rounded intermediate result leaves the domain of \<open>Math.asin\<close> or
  \<open>Math.sqrt\<close>, the program departs from the formula, and what it returns is settled
  on the rounded functions.  The theorems that evaluate the conversions do so
  at inputs whose seconds lie far from a rounding boundary of \<open>toFixed\<close>, where the
  double and the real number give the same digits.  The three non-finite doubles are
  kept as separate values where the source compares or tests them (\<open>validateInput\<close>,
  \<open>validateDMS\<close>), because every comparison with NaN is false and this decides which
  check fires.
\<close>

datatype jsnum = NaN | NegInf | PosInf | Fin real

text \<open>The relational operators \<open><\<close>, \<open>>\<close>, \<open><=\<close>, \<open>>=\<close> of the language.\<close>

fun js_lt :: "jsnum \<Rightarrow> jsnum \<Rightarrow> bool" where
  "js_lt NaN _ = False"
| "js_lt _ NaN = False"
| "js_lt _ NegInf = False"
| "js_lt NegInf _ = True"
| "js_lt PosInf _ = False"
| "js_lt (Fin a) PosInf = True"
| "js_lt (Fin a) (Fin b) = (a < b)"

definition js_gt :: "jsnum \<Rightarrow> jsnum \<Rightarrow> bool" where
  "js_gt a b = js_lt b a"

definition js_le :: "jsnum \<Rightarrow> jsnum \<Rightarrow> bool" where
  "js_le a b = (a \<noteq> NaN \<and> b \<noteq> NaN \<and> \<not> js_lt b a)"

definition js_ge :: "jsnum \<Rightarrow> jsnum \<Rightarrow> bool" where
  "js_ge a b = js_le b a"

definition isNaN :: "jsnum \<Rightarrow> bool" where
  "isNaN x = (x = NaN)"

text \<open>\<open>Math.abs\<close> on a possibly non-finite number.\<close>

fun js_abs :: "jsnum \<Rightarrow> jsnum" where
  "js_abs NaN = NaN"
| "js_abs NegInf = PosInf"
| "js_abs PosInf = PosInf"
| "js_abs (Fin a) = Fin \<bar>a\<bar>"

text \<open>
  \<open>x % 360\<close>: the remainder of the language truncates the quotient towards zero, so the
  result has the sign of the dividend.
\<close>

definition trunc :: "real \<Rightarrow> int" where
  "trunc r = (if 0 \<le> r then \<lfloor>r\<rfloor> else \<lceil>r\<rceil>)"

definition rem360 :: "real \<Rightarrow> real" where
  "rem360 x = x - 360 * of_int (trunc (x / 360))"

text \<open>
  \<open>Math.atan2(y, x)\<close>, the angle of the point \<open>(x, y)\<close> in \<open>(-\<pi>, \<pi>]\<close>; at the origin the
  result is 0 (the value for two positive zeros).
\<close>

definition atan2 :: "real \<Rightarrow> real \<Rightarrow> real" where
  "atan2 y x =
     (if 0 < x then arctan (y / x)
      else if x < 0 then (if 0 \<le> y then arctan (y / x) + pi else arctan (y / x) - pi)
      else if 0 < y then pi / 2
      else if y < 0 then - (pi / 2)
      else 0)"

text \<open>
  \<open>Math.asin\<close> and \<open>Math.sqrt\<close> return NaN outside their domain; NaN then spreads through
  every later operation.  A result that is NaN is \<open>None\<close>.
\<close>

definition js_asin :: "real \<Rightarrow> real option" where
  "js_asin x = (if - 1 \<le> x \<and> x \<le> 1 then Some (arcsin x) else None)"

definition js_sqrt :: "real \<Rightarrow> real option" where
  "js_sqrt x = (if 0 \<le> x then Some (sqrt x) else None)"

text \<open>
  \<open>parseFloat(x.toFixed(2))\<close>: the nearest multiple of 1/100, the larger one on a tie
  for a non-negative \<open>x\<close>; the sign of a negative \<open>x\<close> is split off first.
\<close>

definition toFixed2 :: "real \<Rightarrow> real" where
  "toFixed2 x =
     (if x < 0 then - (of_int \<lfloor>- x * 100 + 1 / 2\<rfloor> / 100)
      else of_int \<lfloor>x * 100 + 1 / 2\<rfloor> / 100)"

section \<open>Constants\<close>

definition EARTH_RADIUS_KM :: real where
  "EARTH_RADIUS_KM = 6371"

definition DEG_TO_RAD :: real where
  "DEG_TO_RAD = pi / 180"

definition RAD_TO_DEG :: real where
  "RAD_TO_DEG = 180 / pi"

definition LAT_MIN :: real where "LAT_MIN = - 90"
definition LAT_MAX :: real where "LAT_MAX = 90"
definition LON_MIN :: real where "LON_MIN = - 180"
definition LON_MAX :: real where "LON_MAX = 180"
definition AZIMUTH_MIN :: real where "AZIMUTH_MIN = 0"
definition AZIMUTH_MAX :: real where "AZIMUTH_MAX = 360"

section \<open>Coordinate conversion\<close>

record dms =
  degrees :: int
  minutes :: int
  seconds :: real

definition dmsToDecimal :: "real \<Rightarrow> real \<Rightarrow> real \<Rightarrow> real" where
  "dmsToDecimal deg mins secs =
     (let sign = (if deg < 0 then - 1 else 1);
          absDegrees = \<bar>deg\<bar>;
          decimal = absDegrees + (mins / 60) + (secs / 3600)
      in sign * decimal)"

definition decimalToDMS :: "real \<Rightarrow> dms" where
  "decimalToDMS decimal =
     (let sign = (if decimal < 0 then - 1 else 1);
          absolute = \<bar>decimal\<bar>;
          degs = \<lfloor>absolute\<rfloor>;
          minutesFloat = (absolute - of_int degs) * 60;
          mins = \<lfloor>minutesFloat\<rfloor>;
          secs = (minutesFloat - of_int mins) * 60
      in \<lparr>degrees = sign * degs, minutes = mins, seconds = toFixed2 secs\<rparr>)"

section \<open>Geodesic calculations\<close>

record coordinate =
  lat :: real
  lon :: real

definition calculateTargetCoordinate :: "real \<Rightarrow> real \<Rightarrow> real \<Rightarrow> real \<Rightarrow> coordinate option" where
  "calculateTargetCoordinate latDeg lonDeg azimuthDeg distanceKm =
     (let lat1 = latDeg * DEG_TO_RAD;
          lon1 = lonDeg * DEG_TO_RAD;
          bearing = azimuthDeg * DEG_TO_RAD;
          delta = distanceKm / EARTH_RADIUS_KM
      in do {
        lat2 \<leftarrow> js_asin (sin lat1 * cos delta + cos lat1 * sin delta * cos bearing);
        let lon2 = lon1 + atan2 (sin bearing * sin delta * cos lat1)
                                (cos delta - sin lat1 * sin lat2);
        let targetLat = lat2 * RAD_TO_DEG;
        let targetLon = lon2 * RAD_TO_DEG;
        let targetLon = rem360 (targetLon + 540) - 180;
        Some \<lparr>lat = targetLat, lon = targetLon\<rparr>
      })"

definition calculateDistance :: "real \<Rightarrow> real \<Rightarrow> real \<Rightarrow> real \<Rightarrow> real option" where
  "calculateDistance lat1 lon1 lat2 lon2 =
     (let phi1 = lat1 * DEG_TO_RAD;
          phi2 = lat2 * DEG_TO_RAD;
          dphi = (lat2 - lat1) * DEG_TO_RAD;
          dlam = (lon2 - lon1) * DEG_TO_RAD;
          a = sin (dphi / 2) * sin (dphi / 2) +
              cos phi1 * cos phi2 * sin (dlam / 2) * sin (dlam / 2)
      in do {
        ra \<leftarrow> js_sqrt a;
        rb \<leftarrow> js_sqrt (1 - a);
        let c = 2 * atan2 ra rb;
        Some (EARTH_RADIUS_KM * c)
      })"

definition calculateBearing :: "real \<Rightarrow> real \<Rightarrow> real \<Rightarrow> real \<Rightarrow> real" where
  "calculateBearing lat1 lon1 lat2 lon2 =
     (let phi1 = lat1 * DEG_TO_RAD;
          phi2 = lat2 * DEG_TO_RAD;
          dlam = (lon2 - lon1) * DEG_TO_RAD;
          y = sin dlam * cos phi2;
          x = cos phi1 * sin phi2 - sin phi1 * cos phi2 * cos dlam;
          theta = atan2 y x
      in rem360 (theta * RAD_TO_DEG + 360))"

section \<open>Validation\<close>

text \<open>
  \<open>validateInput\<close> returns a message, the empty string when the data are valid; its
  caller tests the string for truthiness.  The six messages are non-empty constants of
  the source (in Vietnamese), one constructor each; \<open>None\<close> is the empty string.  The
  object argument is destructured on entry, so the model takes its four fields.
\<close>

datatype diagnostic =
    LatitudeRange         \<comment> \<open>latitude must be between LAT_MIN and LAT_MAX\<close>
  | LongitudeRange        \<comment> \<open>longitude must be between LON_MIN and LON_MAX\<close>
  | AzimuthRange          \<comment> \<open>azimuth must be between AZIMUTH_MIN and AZIMUTH_MAX\<close>
  | DistanceNotPositive   \<comment> \<open>distance must be greater than 0 km\<close>
  | DistanceWarning       \<comment> \<open>"Warning: a large distance (>100km) may reduce accuracy"\<close>
  | InvalidData           \<comment> \<open>the input data are invalid (the NaN check)\<close>

definition validateInput :: "jsnum \<Rightarrow> jsnum \<Rightarrow> jsnum \<Rightarrow> jsnum \<Rightarrow> diagnostic option" where
  "validateInput la lo azimuth distance =
     (if js_lt la (Fin LAT_MIN) \<or> js_gt la (Fin LAT_MAX) then Some LatitudeRange
      else if js_lt lo (Fin LON_MIN) \<or> js_gt lo (Fin LON_MAX) then Some LongitudeRange
      else if js_lt azimuth (Fin AZIMUTH_MIN) \<or> js_gt azimuth (Fin AZIMUTH_MAX)
        then Some AzimuthRange
      else if js_le distance (Fin 0) then Some DistanceNotPositive
      else if js_gt distance (Fin 100) then Some DistanceWarning
      else if isNaN la \<or> isNaN lo \<or> isNaN azimuth \<or> isNaN distance then Some InvalidData
      else None)"

datatype dms_diagnostic =
    InvalidDMS | MinutesRange | SecondsRange | LatDegreesRange | LonDegreesRange

text \<open>The \<open>type\<close> argument is a string compared with \<open>'lat'\<close> and \<open>'lon'\<close>.\<close>

definition validateDMS :: "jsnum \<Rightarrow> jsnum \<Rightarrow> jsnum \<Rightarrow> string \<Rightarrow> dms_diagnostic option" where
  "validateDMS deg mins secs type =
     (if isNaN deg \<or> isNaN mins \<or> isNaN secs then Some InvalidDMS
      else if js_lt mins (Fin 0) \<or> js_ge mins (Fin 60) then Some MinutesRange
      else if js_lt secs (Fin 0) \<or> js_ge secs (Fin 60) then Some SecondsRange
      else if type = ''lat'' then
        (if js_gt (js_abs deg) (Fin 90) then Some LatDegreesRange else None)
      else if type = ''lon'' then
        (if js_gt (js_abs deg) (Fin 180) then Some LonDegreesRange else None)
      else None)"

section \<open>Error estimation\<close>

text \<open>
  The last three parameters have default values; an omitted argument is \<open>None\<close>.  The
  radicand is a sum of three squares, so the square root is taken of a non-negative
  number.
\<close>

definition estimateError :: "real \<Rightarrow> real option \<Rightarrow> real option \<Rightarrow> real option \<Rightarrow> real" where
  "estimateError distanceKm gpsErrorArg azimuthErrorArg distanceErrorArg =
     (let gpsError = (case gpsErrorArg of None \<Rightarrow> 10 | Some v \<Rightarrow> v);
          azimuthError = (case azimuthErrorArg of None \<Rightarrow> 1 / 2 | Some v \<Rightarrow> v);
          distanceError = (case distanceErrorArg of None \<Rightarrow> 1 / 2 | Some v \<Rightarrow> v);
          azimuthErrorRad = azimuthError * DEG_TO_RAD;
          azimuthErrorMeters = distanceKm * 1000 * sin azimuthErrorRad;
          totalError = sqrt (gpsError ^ 2 + azimuthErrorMeters ^ 2 + distanceError ^ 2)
      in totalError)"

section \<open>The main calculation\<close>

text \<open>
  The result object, without its formatted strings.  A field that can be NaN is an
  option.  \<open>decimalToDMS\<close> of the observer and of the target are the \<open>dms\<close> entries.
  The body of the source sits in a \<open>try\<close> block; none of its operations throws, so the
  \<open>catch\<close> branch has no counterpart here.
\<close>

record calc_data =
  observer :: coordinate
  observer_dms :: "dms \<times> dms"
  target :: "coordinate option"
  target_dms :: "(dms \<times> dms) option"
  measurement_azimuth :: real
  measurement_distance :: real
  verification_distance :: "real option"
  verification_bearing :: "real option"
  verification_distanceError :: "real option"
  verification_bearingError :: "real option"
  estimatedError_meters :: real

text \<open>
  \<open>Failure\<close> is \<open>{success: false, error}\<close>, \<open>Success\<close> is \<open>{success: true, data}\<close>.
  Arithmetic on non-finite numbers is not modelled: \<open>NonFinite\<close> stands for a
  calculation on an input that passed validation without being finite, which
  \<open>validateInput\<close> excludes (lemma \<open>validateInput_None_finite\<close>).
\<close>

datatype calc_result = Failure diagnostic | Success calc_data | NonFinite

definition assemble :: "real \<Rightarrow> real \<Rightarrow> real \<Rightarrow> real \<Rightarrow> calc_data" where
  "assemble observerLat observerLon azimuth distance =
     (let tgt = calculateTargetCoordinate observerLat observerLon azimuth distance;
          verifyDistance =
            tgt \<bind> (\<lambda>t. calculateDistance observerLat observerLon (lat t) (lon t));
          verifyBearing =
            map_option (\<lambda>t. calculateBearing observerLat observerLon (lat t) (lon t)) tgt;
          estimatedError = estimateError distance None None None
      in \<lparr>observer = \<lparr>lat = observerLat, lon = observerLon\<rparr>,
          observer_dms = (decimalToDMS observerLat, decimalToDMS observerLon),
          target = tgt,
          target_dms = map_option (\<lambda>t. (decimalToDMS (lat t), decimalToDMS (lon t))) tgt,
          measurement_azimuth = azimuth,
          measurement_distance = distance,
          verification_distance = verifyDistance,
          verification_bearing = verifyBearing,
          verification_distanceError = map_option (\<lambda>v. \<bar>v - distance\<bar>) verifyDistance,
          verification_bearingError = map_option (\<lambda>v. \<bar>v - azimuth\<bar>) verifyBearing,
          estimatedError_meters = estimatedError\<rparr>)"

definition calculateTarget :: "jsnum \<Rightarrow> jsnum \<Rightarrow> jsnum \<Rightarrow> jsnum \<Rightarrow> calc_result" where
  "calculateTarget observerLat observerLon azimuth distance =
     (case validateInput observerLat observerLon azimuth distance of
        Some validationError \<Rightarrow> Failure validationError
      | None \<Rightarrow>
          (case (observerLat, observerLon, azimuth, distance) of
             (Fin la, Fin lo, Fin az, Fin d) \<Rightarrow> Success (assemble la lo az d)
           | _ \<Rightarrow> NonFinite))"

section \<open>Compositions and orderings named by the specification\<close>

text \<open>
  The verification step of \<open>calculateTarget\<close> feeds the computed target back into the
  inverse functions.  The two compositions are named here so that the round-trip laws
  can be stated for every input, also for those that \<open>calculateTarget\<close> rejects.
\<close>

definition roundTripDistance :: "real \<Rightarrow> real \<Rightarrow> real \<Rightarrow> real \<Rightarrow> real option" where
  "roundTripDistance latDeg lonDeg azimuthDeg distanceKm =
     calculateTargetCoordinate latDeg lonDeg azimuthDeg distanceKm
       \<bind> (\<lambda>t. calculateDistance latDeg lonDeg (lat t) (lon t))"

definition roundTripBearing :: "real \<Rightarrow> real \<Rightarrow> real \<Rightarrow> real \<Rightarrow> real option" where
  "roundTripBearing latDeg lonDeg azimuthDeg distanceKm =
     map_option (\<lambda>t. calculateBearing latDeg lonDeg (lat t) (lon t))
       (calculateTargetCoordinate latDeg lonDeg azimuthDeg distanceKm)"

text \<open>A computed number agrees with an expected one within a tolerance; NaN agrees with nothing.\<close>

fun agrees_within :: "real \<Rightarrow> real option \<Rightarrow> real \<Rightarrow> bool" where
  "agrees_within tol None expected = False"
| "agrees_within tol (Some v) expected = (\<bar>v - expected\<bar> \<le> tol)"

text \<open>
  The validation order as the specification words it: a list of checks, each with its
  diagnostic, of which the first failing one wins.
\<close>

fun first_failing :: "(bool \<times> diagnostic) list \<Rightarrow> diagnostic option" where
  "first_failing [] = None"
| "first_failing ((failed, msg) # rest) = (if failed then Some msg else first_failing rest)"

definition outside :: "real \<Rightarrow> real \<Rightarrow> jsnum \<Rightarrow> bool" where
  "outside lo hi x = (js_lt x (Fin lo) \<or> js_gt x (Fin hi))"

definition validate_spec :: "jsnum \<Rightarrow> jsnum \<Rightarrow> jsnum \<Rightarrow> jsnum \<Rightarrow> diagnostic option" where
  "validate_spec la lo bearing distance =
     first_failing
       [(outside (- 90) 90 la, LatitudeRange),
        (outside (- 180) 180 lo, LongitudeRange),
        (outside 0 360 bearing, AzimuthRange),
        (js_le distance (Fin 0), DistanceNotPositive),
        (js_gt distance (Fin 100), DistanceWarning),
        (isNaN la \<or> isNaN lo \<or> isNaN bearing \<or> isNaN distance, InvalidData)]"

section \<open>Doubles\<close>

text \<open>
  Rounding to the nearest double, ties to the even mantissa: 53 binary digits in the
  binade of the number, the spacing of the binade \<open>2^-1022\<close> below it.  The sum, the
  difference, the product and the quotient of two doubles are the exact results
  rounded; \<open>%\<close> is exact.  Overflow and the sign of zero are not modelled.
\<close>

definition pow2 :: "int \<Rightarrow> real" where
  "pow2 e = (if 0 \<le> e then 2 ^ nat e else 1 / 2 ^ nat (- e))"

definition round_even :: "real \<Rightarrow> int" where
  "round_even x =
     (let f = \<lfloor>x\<rfloor>; r = x - of_int f
      in if r < 1 / 2 then f else if 1 / 2 < r then f + 1 else if even f then f else f + 1)"

definition exponent64 :: "real \<Rightarrow> int" where
  "exponent64 x = max \<lfloor>log 2 \<bar>x\<bar>\<rfloor> (- 1022)"

definition rnd64 :: "real \<Rightarrow> real" where
  "rnd64 x =
     (if x = 0 then 0
      else let q = pow2 (exponent64 x - 52) in of_int (round_even (x / q)) * q)"

text \<open>\<open>Math.PI\<close> is the double nearest to \<open>\<pi>\<close>.\<close>

definition Math_PI :: real where
  "Math_PI = 884279719003555 / 2 ^ 48"

text \<open>
  \<open>Math.sin\<close>, \<open>Math.cos\<close>, \<open>Math.asin\<close>, \<open>Math.atan2\<close> and \<open>Math.sqrt\<close> belong to the
  engine that runs the module, and the language leaves their values to it; they are a
  parameter of the rounded functions.  What the language fixes is kept: \<open>Math.asin\<close>
  is NaN outside \<open>[-1, 1]\<close> and \<open>Math.sqrt\<close> is NaN below 0.
\<close>

record math_lib =
  Math_sin :: "real \<Rightarrow> real"
  Math_cos :: "real \<Rightarrow> real"
  Math_asin :: "real \<Rightarrow> real"
  Math_atan2 :: "real \<Rightarrow> real \<Rightarrow> real"
  Math_sqrt :: "real \<Rightarrow> real"

definition asin_fl :: "math_lib \<Rightarrow> real \<Rightarrow> real option" where
  "asin_fl M x = (if - 1 \<le> x \<and> x \<le> 1 then Some (Math_asin M x) else None)"


text \<open>The constants and the two functions of the source, operation by operation.\<close>

definition DEG_TO_RAD_fl :: real where
  "DEG_TO_RAD_fl = rnd64 (Math_PI / 180)"

definition RAD_TO_DEG_fl :: real where
  "RAD_TO_DEG_fl = rnd64 (180 / Math_PI)"

definition calculateTargetCoordinate_fl ::
    "math_lib \<Rightarrow> real \<Rightarrow> real \<Rightarrow> real \<Rightarrow> real \<Rightarrow> coordinate option" where
  "calculateTargetCoordinate_fl M latDeg lonDeg azimuthDeg distanceKm =
     (let lat1 = rnd64 (latDeg * DEG_TO_RAD_fl);
          lon1 = rnd64 (lonDeg * DEG_TO_RAD_fl);
          bearing = rnd64 (azimuthDeg * DEG_TO_RAD_fl);
          delta = rnd64 (distanceKm / EARTH_RADIUS_KM)
      in do {
        lat2 \<leftarrow> asin_fl M
          (rnd64 (rnd64 (Math_sin M lat1 * Math_cos M delta) +
                  rnd64 (rnd64 (Math_cos M lat1 * Math_sin M delta) * Math_cos M bearing)));
        let lon2 = rnd64 (lon1 + Math_atan2 M
                     (rnd64 (rnd64 (Math_sin M bearing * Math_sin M delta) * Math_cos M lat1))
                     (rnd64 (Math_cos M delta - rnd64 (Math_sin M lat1 * Math_sin M lat2))));
        let targetLat = rnd64 (lat2 * RAD_TO_DEG_fl);
        let targetLon = rnd64 (lon2 * RAD_TO_DEG_fl);
        let targetLon = rnd64 (rem360 (rnd64 (targetLon + 540)) - 180);
        Some \<lparr>lat = targetLat, lon = targetLon\<rparr>
      })"


text \<open>
  A library for the witnesses: at the arguments listed it returns the doubles nearest
  to the exact sine and cosine, elsewhere the exact functions.
\<close>

definition sin_table :: "(real \<times> real) list" where
  "sin_table =
     [(7064805435025735 / 2 ^ 52, 9007179499749679 / 2 ^ 53),
      (4829349491310941 / 2 ^ 61, 2414672980328751 / 2 ^ 60),
      (3536529356201551 / 2 ^ 51, 4503599473034571 / 2 ^ 52),
      (1207319276429923 / 2 ^ 62, 4829277050555701 / 2 ^ 64),
      (- (5030569068109113 / 2 ^ 55), - (5014239404989977 / 2 ^ 55)),
      (884279719003555 / 2 ^ 49, 1),
      (5030569068109113 / 2 ^ 55, 5014239404989977 / 2 ^ 55),
      (- (884279719003555 / 2 ^ 49), - 1)]"

definition cos_table :: "(real \<times> real) list" where
  "cos_table =
     [(4829349491310941 / 2 ^ 61, 4503589749861807 / 2 ^ 52),
      (7064805435025735 / 2 ^ 52, 2414671387369325 / 2 ^ 60),
      (1207319276429923 / 2 ^ 62, 2251799736519497 / 2 ^ 51),
      (3536529356201551 / 2 ^ 51, 4829346250219215 / 2 ^ 64),
      (5030569068109113 / 2 ^ 55, 4459770905381437 / 2 ^ 52),
      (- (5030569068109113 / 2 ^ 55), 4459770905381437 / 2 ^ 52)]"

definition nearest_lib :: math_lib where
  "nearest_lib =
     \<lparr>Math_sin = (\<lambda>x. case map_of sin_table x of Some v \<Rightarrow> v | None \<Rightarrow> sin x),
      Math_cos = (\<lambda>x. case map_of cos_table x of Some v \<Rightarrow> v | None \<Rightarrow> cos x),
      Math_asin = arcsin,
      Math_atan2 = atan2,
      Math_sqrt = sqrt\<rparr>"

section \<open>Validation and the gate of the main calculation\<close>

lemmas limits_defs =
  LAT_MIN_def LAT_MAX_def LON_MIN_def LON_MAX_def AZIMUTH_MIN_def AZIMUTH_MAX_def

lemmas js_cmp_defs = js_gt_def js_le_def js_ge_def isNaN_def

text \<open>An input that passes validation is finite, so \<open>calculateTarget\<close> never computes on
  NaN or on an infinity.\<close>

lemma validateInput_None_finite:
  assumes "validateInput la lo az d = None"
  shows "\<exists>a b c e. la = Fin a \<and> lo = Fin b \<and> az = Fin c \<and> d = Fin e"
  using assms
  by (cases la; cases lo; cases az; cases d)
     (simp_all add: validateInput_def js_cmp_defs limits_defs split: if_splits)

lemma calculateTarget_modelled: "calculateTarget la lo az d \<noteq> NonFinite"
proof (cases "validateInput la lo az d")
  case None
  from validateInput_None_finite[OF this] obtain a b c e
    where "la = Fin a" "lo = Fin b" "az = Fin c" "d = Fin e" by blast
  with None show ?thesis by (simp add: calculateTarget_def)
next
  case (Some msg)
  then show ?thesis by (simp add: calculateTarget_def)
qed


text \<open>On finite numbers the outcome of validation, written with the order on the reals.\<close>

lemma validateInput_Fin:
  "validateInput (Fin a) (Fin b) (Fin c) (Fin e) =
     (if a < - 90 \<or> 90 < a then Some LatitudeRange
      else if b < - 180 \<or> 180 < b then Some LongitudeRange
      else if c < 0 \<or> 360 < c then Some AzimuthRange
      else if e \<le> 0 then Some DistanceNotPositive
      else if 100 < e then Some DistanceWarning
      else None)"
  by (simp add: validateInput_def js_cmp_defs limits_defs not_less)

text \<open>Every distance above 100 km that passes the range checks is turned away by
  \<open>calculateTarget\<close> with the warning as its error.\<close>

lemma calculateTarget_large_distance:
  assumes "- 90 \<le> a" "a \<le> 90" "- 180 \<le> b" "b \<le> 180" "0 \<le> c" "c \<le> 360" "100 < e"
  shows "validateInput (Fin a) (Fin b) (Fin c) (Fin e) = Some DistanceWarning"
    and "calculateTarget (Fin a) (Fin b) (Fin c) (Fin e) = Failure DistanceWarning"
  using assms by (simp_all add: calculateTarget_def validateInput_Fin)

text \<open>
  Claim C1.  A request whose latitude, longitude, bearing and distance pass the range
  checks and whose distance exceeds 100 km should get the accuracy warning from
  validation and still a successful result from \<open>calculateTarget\<close>.  The source returns
  the warning through the same string as the hard failures, and \<open>calculateTarget\<close>
  returns \<open>success: false\<close> for every non-empty string: at the observer
  (10.762622, 106.660172), bearing 45 and distance 150 km the result is the failure
  carrying the warning, and no target is computed.
\<close>

theorem calculateTarget_warning_blocks_150km:
  "validateInput (Fin 10.762622) (Fin 106.660172) (Fin 45) (Fin 150) = Some DistanceWarning \<and>
   calculateTarget (Fin 10.762622) (Fin 106.660172) (Fin 45) (Fin 150) = Failure DistanceWarning"
  by (simp add: calculateTarget_def validateInput_Fin)

text \<open>
  Claim C7.  \<open>validateInput\<close> checks latitude range, longitude range, bearing range,
  distance \<open><= 0\<close>, distance \<open>> 100\<close> and not-a-number in this order and the first
  failing check gives the diagnostic; in particular, when latitude and longitude are both
  out of range the diagnostic is the one for the latitude.
\<close>

theorem validateInput_precedence:
  "validateInput la lo az d = validate_spec la lo az d \<and>
   (outside (- 90) 90 la \<and> outside (- 180) 180 lo \<longrightarrow>
      validateInput la lo az d = Some LatitudeRange)"
  by (simp add: validateInput_def validate_spec_def outside_def limits_defs)

theorem validateInput_precedence_witness:
  "outside (- 90) 90 (Fin 100) \<and> outside (- 180) 180 (Fin 200) \<and>
   validateInput (Fin 100) (Fin 200) (Fin 45) (Fin 1) = Some LatitudeRange"
proof -
  have out: "outside (- 90) 90 (Fin 100) \<and> outside (- 180) 180 (Fin 200)"
    by (simp add: outside_def js_gt_def)
  with validateInput_precedence [of "Fin 100" "Fin 200" "Fin 45" "Fin 1"]
  show ?thesis by blast
qed

text \<open>NaN fails no comparison, so it is reported only if no earlier check fires: a NaN
  latitude next to a longitude of 200 yields the longitude diagnostic.\<close>

lemma validateInput_NaN_last:
  "validateInput NaN (Fin 200) (Fin 45) (Fin 1) = Some LongitudeRange"
  "validateInput NaN (Fin 20) (Fin 45) (Fin 1) = Some InvalidData"
  by (simp_all add: validateInput_def js_cmp_defs limits_defs)

section \<open>Degrees, minutes and seconds\<close>

lemma toFixed2_error: "\<bar>toFixed2 x - x\<bar> \<le> 1 / 200"
proof -
  have *: "\<bar>of_int \<lfloor>y * 100 + 1 / 2\<rfloor> / 100 - y\<bar> \<le> 1 / 200" for y :: real
  proof -
    define n where "n = \<lfloor>y * 100 + 1 / 2\<rfloor>"
    have "of_int n \<le> y * 100 + 1 / 2" and "y * 100 + 1 / 2 < of_int n + 1"
      unfolding n_def by linarith+
    then have "of_int n / 100 - y \<le> 1 / 200" and "y - of_int n / 100 \<le> 1 / 200"
      by linarith+
    then have "\<bar>of_int n / 100 - y\<bar> \<le> 1 / 200"
      by linarith
    then show ?thesis unfolding n_def .
  qed
  show ?thesis
  proof (cases "x < 0")
    case True
    have "\<bar>toFixed2 x - x\<bar> = \<bar>of_int \<lfloor>(- x) * 100 + 1 / 2\<rfloor> / 100 - (- x)\<bar>"
      using True by (simp add: toFixed2_def abs_minus_commute)
    then show ?thesis using *[of "- x"] by simp
  next
    case False
    then show ?thesis using *[of x] by (simp add: toFixed2_def)
  qed
qed

text \<open>Minutes stay below 60; seconds are rounded after the split and can reach 60.\<close>

lemma decimalToDMS_minutes: "0 \<le> minutes (decimalToDMS x) \<and> minutes (decimalToDMS x) < 60"
proof -
  have "0 \<le> \<bar>x\<bar> - of_int \<lfloor>\<bar>x\<bar>\<rfloor>" and "\<bar>x\<bar> - of_int \<lfloor>\<bar>x\<bar>\<rfloor> < 1"
    by linarith+
  then have "0 \<le> (\<bar>x\<bar> - of_int \<lfloor>\<bar>x\<bar>\<rfloor>) * 60" and "(\<bar>x\<bar> - of_int \<lfloor>\<bar>x\<bar>\<rfloor>) * 60 < 60"
    by simp_all
  then show ?thesis
    by (simp add: decimalToDMS_def Let_def floor_less_iff)
qed

lemma decimalToDMS_seconds: "0 \<le> seconds (decimalToDMS x) \<and> seconds (decimalToDMS x) \<le> 60"
proof -
  define mf where "mf = (\<bar>x\<bar> - of_int \<lfloor>\<bar>x\<bar>\<rfloor>) * 60"
  define s where "s = (mf - of_int \<lfloor>mf\<rfloor>) * 60"
  have s: "0 \<le> s" "s < 60"
    unfolding s_def by (simp, simp, linarith)
  have sec: "seconds (decimalToDMS x) = of_int \<lfloor>s * 100 + 1 / 2\<rfloor> / 100"
    using s by (simp add: decimalToDMS_def Let_def toFixed2_def s_def mf_def)
  have "0 \<le> \<lfloor>s * 100 + 1 / 2\<rfloor>" using s by simp
  moreover have "\<lfloor>s * 100 + 1 / 2\<rfloor> \<le> 6000"
  proof -
    have "s * 100 + 1 / 2 < 6001" using s by simp
    then have "\<lfloor>s * 100 + 1 / 2\<rfloor> < 6001" by (simp add: floor_less_iff)
    then show ?thesis by simp
  qed
  ultimately show ?thesis unfolding sec by simp
qed

text \<open>
  Claim C2.  \<open>decimalToDMS\<close> should never return 60.00 seconds (nor 60 minutes): a
  rounding of the seconds to 60.00 should carry into the minutes.  The source rounds the
  seconds with \<open>toFixed(2)\<close> after the split and has no carry: for 0.9999999 degrees it
  returns 0 degrees, 59 minutes and 60 seconds.
\<close>

theorem decimalToDMS_emits_60_seconds:
  "decimalToDMS 0.9999999 = \<lparr>degrees = 0, minutes = 59, seconds = 60\<rparr>"
  by (simp add: decimalToDMS_def toFixed2_def Let_def)

text \<open>The module's own check of a DMS triple rejects that result.\<close>

lemma validateDMS_rejects_60_seconds:
  "validateDMS (Fin 0) (Fin 59) (Fin 60) ''lat'' = Some SecondsRange"
  by (simp add: validateDMS_def js_cmp_defs)

text \<open>
  In exact arithmetic the round trip of a triple with whole degrees and minutes gives
  the degrees and the minutes back, and the seconds rounded to two decimals, uncarried:
  they are within 0.005 of the input (lemma \<open>toFixed2_error\<close>) and reach 60.00 when the
  input seconds are 59.995 or more.
\<close>

lemma dms_round_trip_exact:
  fixes d m :: int and s :: real
  assumes m: "0 \<le> m" "m < 60" and s: "0 \<le> s" "s < 60"
  shows "decimalToDMS (dmsToDecimal (of_int d) (of_int m) s)
           = \<lparr>degrees = d, minutes = m, seconds = toFixed2 s\<rparr>"
proof -
  define f where "f = real_of_int m / 60 + s / 3600"
  have "real_of_int m \<le> 59" using m(2) by simp
  then have f: "0 \<le> f" "f < 1" unfolding f_def using m(1) s by (simp, linarith)
  define x where "x = dmsToDecimal (of_int d) (of_int m) s"
  have x: "x = (if d < 0 then - 1 else 1) * (real_of_int \<bar>d\<bar> + f)"
    unfolding x_def dmsToDecimal_def Let_def f_def by simp
  have ax: "\<bar>x\<bar> = real_of_int \<bar>d\<bar> + f"
    unfolding x using f(1) by (simp add: abs_mult)
  have "of_int \<bar>d\<bar> \<le> real_of_int \<bar>d\<bar> + f" and "real_of_int \<bar>d\<bar> + f < of_int \<bar>d\<bar> + 1"
    using f by simp_all
  then have fl: "\<lfloor>\<bar>x\<bar>\<rfloor> = \<bar>d\<bar>"
    unfolding ax by (rule floor_unique)
  have mf: "(\<bar>x\<bar> - of_int \<bar>d\<bar>) * 60 = real_of_int m + s / 60"
    unfolding ax f_def by simp
  have "of_int m \<le> real_of_int m + s / 60" and "real_of_int m + s / 60 < of_int m + 1"
    using s by simp_all
  then have fm: "\<lfloor>real_of_int m + s / 60\<rfloor> = m"
    by (rule floor_unique)
  have sg: "x < 0 \<longleftrightarrow> d < 0"
  proof
    assume "x < 0" then show "d < 0" using f(1) unfolding x by (auto split: if_splits)
  next
    assume "d < 0"
    then have "0 < real_of_int \<bar>d\<bar> + f" using f(1) by simp
    then show "x < 0" unfolding x using \<open>d < 0\<close> by simp
  qed
  have "decimalToDMS x = \<lparr>degrees = (if d < 0 then - 1 else 1) * \<bar>d\<bar>, minutes = m, seconds = toFixed2 s\<rparr>"
    unfolding decimalToDMS_def Let_def fl mf fm sg by simp
  then show ?thesis unfolding x_def by (simp split: if_splits)
qed

lemma toFixed2_sixty:
  assumes "0 \<le> s" "s < 60"
  shows "toFixed2 s = 60 \<longleftrightarrow> 59.995 \<le> s"
proof -
  have "toFixed2 s = 60 \<longleftrightarrow> \<lfloor>s * 100 + 1 / 2\<rfloor> = 6000"
    using assms(1) by (simp add: toFixed2_def)
  also have "\<dots> \<longleftrightarrow> 6000 \<le> s * 100 + 1 / 2 \<and> s * 100 + 1 / 2 < 6001"
    by (simp add: floor_eq_iff)
  also have "\<dots> \<longleftrightarrow> 59.995 \<le> s"
    using assms(2) by auto
  finally show ?thesis .
qed

text \<open>
  Claim C5.  For a DMS triple with minutes and seconds in \<open>[0, 60)\<close>,
  \<open>decimalToDMS (dmsToDecimal d m s)\<close> should give the triple back within 0.01 on the
  seconds, with a correct carry when the seconds round to 60.00.  For the triple
  (10, 59, 59.999) the source returns 60 seconds uncarried, (10, 59, 60.00), not a
  triple with seconds below 60.
\<close>

theorem dms_round_trip_no_carry:
  "decimalToDMS (dmsToDecimal 10 59 59.999) = \<lparr>degrees = 10, minutes = 59, seconds = 60\<rparr>"
  by (simp add: decimalToDMS_def dmsToDecimal_def toFixed2_def Let_def)

section \<open>Remainder, arc tangent and unit conversion\<close>

text \<open>
  From here to the section on rounding the lemmas are about the formulas in exact
  arithmetic: \<open>calculateTargetCoordinate\<close>, \<open>calculateDistance\<close> and \<open>calculateBearing\<close>
  on the reals.
\<close>

lemma deg_rad [simp]: "RAD_TO_DEG * DEG_TO_RAD = 1" "DEG_TO_RAD * RAD_TO_DEG = 1"
  by (simp_all add: RAD_TO_DEG_def DEG_TO_RAD_def)

lemma DEG_TO_RAD_pos: "0 < DEG_TO_RAD"
  by (simp add: DEG_TO_RAD_def)

lemma deg_le: "a \<le> b \<Longrightarrow> a * DEG_TO_RAD \<le> b * DEG_TO_RAD"
  using DEG_TO_RAD_pos by (simp add: mult_right_mono)

lemma deg_less: "a < b \<Longrightarrow> a * DEG_TO_RAD < b * DEG_TO_RAD"
  using DEG_TO_RAD_pos by simp

lemma deg_values:
  "90 * DEG_TO_RAD = pi / 2" "- 90 * DEG_TO_RAD = - (pi / 2)"
  "180 * DEG_TO_RAD = pi" "360 * DEG_TO_RAD = 2 * pi"
  by (simp_all add: DEG_TO_RAD_def)

lemma rad_deg: "x * DEG_TO_RAD * RAD_TO_DEG = x"
  by (simp add: mult.assoc)

lemma trunc_bounds: "0 \<le> r \<Longrightarrow> of_int (trunc r) \<le> r \<and> r < of_int (trunc r) + 1"
  unfolding trunc_def by simp

lemma rem360_nonneg: assumes "0 \<le> x" shows "0 \<le> rem360 x \<and> rem360 x < 360"
proof -
  have "0 \<le> x / 360" using assms by simp
  from trunc_bounds[OF this] show ?thesis unfolding rem360_def by (simp add: field_simps)
qed

lemma rem360_less: "rem360 x < 360"
proof (cases "0 \<le> x")
  case True
  then show ?thesis using rem360_nonneg by blast
next
  case False
  then have "x / 360 < 0" by simp
  then have "trunc (x / 360) = \<lceil>x / 360\<rceil>" by (simp add: trunc_def)
  moreover have "x / 360 \<le> of_int \<lceil>x / 360\<rceil>" by simp
  ultimately have "rem360 x \<le> 0" unfolding rem360_def by linarith
  then show ?thesis by simp
qed

lemma rem360_shift: "\<exists>k::int. rem360 x = x - 360 * of_int k"
  unfolding rem360_def by blast

lemma rem360_id: assumes "0 \<le> x" "x < 360" shows "rem360 x = x"
proof -
  have "\<lfloor>x / 360\<rfloor> = 0" using assms by (simp add: floor_eq_iff)
  then show ?thesis using assms by (simp add: rem360_def trunc_def)
qed

lemma rem360_once: assumes "360 \<le> x" "x < 720" shows "rem360 x = x - 360"
proof -
  have "\<lfloor>x / 360\<rfloor> = 1" using assms by (simp add: floor_eq_iff)
  then show ?thesis using assms by (simp add: rem360_def trunc_def)
qed

lemma atan2_bounds: "- pi < atan2 y x \<and> atan2 y x \<le> pi"
proof -
  have a: "- (pi/2) < arctan (y / x)" "arctan (y / x) < pi / 2"
    by (rule arctan_lbound, rule arctan_ubound)
  have z: "x < 0 \<Longrightarrow> 0 \<le> y \<Longrightarrow> arctan (y / x) \<le> 0"
    by (simp add: divide_le_0_iff)
  have z2: "x < 0 \<Longrightarrow> y < 0 \<Longrightarrow> 0 < arctan (y / x)"
    by (simp add: zero_less_divide_iff)
  show ?thesis using a z z2 pi_gt_zero unfolding atan2_def by auto
qed

section \<open>The error estimate\<close>






section \<open>The haversine distance\<close>

lemma sin_half_sq: "sin (u / 2) * sin (u / 2) = (1 - cos u) / 2" for u :: real
proof -
  have "cos u = cos (2 * (u / 2))" by simp
  also have "\<dots> = 1 - 2 * (sin (u / 2))\<^sup>2" by (rule cos_double_sin)
  finally show ?thesis by (simp add: power2_eq_square)
qed

lemma haversine_cos:
  fixes p1 p2 dl :: real
  shows "1 - 2 * (sin ((p2 - p1) / 2) * sin ((p2 - p1) / 2) + cos p1 * cos p2 * sin (dl / 2) * sin (dl / 2))
         = sin p1 * sin p2 + cos p1 * cos p2 * cos dl"
proof -
  have "sin ((p2 - p1) / 2) * sin ((p2 - p1) / 2) = (1 - cos (p2 - p1)) / 2"
    by (rule sin_half_sq)
  moreover have "cos p1 * cos p2 * sin (dl / 2) * sin (dl / 2) = cos p1 * cos p2 * ((1 - cos dl) / 2)"
    using sin_half_sq[of dl] by (simp add: mult.assoc)
  moreover have "cos (p2 - p1) = cos p2 * cos p1 + sin p2 * sin p1" by (rule cos_diff)
  ultimately show ?thesis by (simp add: algebra_simps)
qed

lemma dot_le_one:
  fixes p1 p2 dl :: real
  shows "\<bar>sin p1 * sin p2 + cos p1 * cos p2 * cos dl\<bar> \<le> 1"
proof -
  have a: "2 * \<bar>sin p1 * sin p2\<bar> \<le> (sin p1)\<^sup>2 + (sin p2)\<^sup>2"
    using sum_squares_bound[of "\<bar>sin p1\<bar>" "\<bar>sin p2\<bar>"] by (simp add: abs_mult)
  have b: "2 * \<bar>cos p1 * cos p2\<bar> \<le> (cos p1)\<^sup>2 + (cos p2)\<^sup>2"
    using sum_squares_bound[of "\<bar>cos p1\<bar>" "\<bar>cos p2\<bar>"] by (simp add: abs_mult)
  have "\<bar>cos p1 * cos p2 * cos dl\<bar> = \<bar>cos p1 * cos p2\<bar> * \<bar>cos dl\<bar>" by (simp add: abs_mult)
  also have "\<dots> \<le> \<bar>cos p1 * cos p2\<bar> * 1"
    by (intro mult_left_mono) simp_all
  finally have c: "\<bar>cos p1 * cos p2 * cos dl\<bar> \<le> \<bar>cos p1 * cos p2\<bar>" by simp
  have s1: "(sin p1)\<^sup>2 + (cos p1)\<^sup>2 = 1" and s2: "(sin p2)\<^sup>2 + (cos p2)\<^sup>2 = 1" by simp_all
  have "\<bar>sin p1 * sin p2 + cos p1 * cos p2 * cos dl\<bar> \<le> \<bar>sin p1 * sin p2\<bar> + \<bar>cos p1 * cos p2 * cos dl\<bar>"
    by (rule abs_triangle_ineq)
  with a b c s1 s2 show ?thesis by linarith
qed

lemma haversine_range:
  fixes p1 p2 dl :: real
  defines "a \<equiv> sin ((p2 - p1) / 2) * sin ((p2 - p1) / 2) + cos p1 * cos p2 * sin (dl / 2) * sin (dl / 2)"
  shows "0 \<le> a \<and> a \<le> 1"
proof -
  have "1 - 2 * a = sin p1 * sin p2 + cos p1 * cos p2 * cos dl"
    unfolding a_def by (rule haversine_cos)
  with dot_le_one[of p1 p2 dl] show ?thesis by (simp add: abs_le_iff) 
qed

lemma calculateDistance_eq:
  "calculateDistance lat1 lon1 lat2 lon2 =
     (let a = sin ((lat2 * DEG_TO_RAD - lat1 * DEG_TO_RAD) / 2) * sin ((lat2 * DEG_TO_RAD - lat1 * DEG_TO_RAD) / 2)
            + cos (lat1 * DEG_TO_RAD) * cos (lat2 * DEG_TO_RAD)
              * sin ((lon2 - lon1) * DEG_TO_RAD / 2) * sin ((lon2 - lon1) * DEG_TO_RAD / 2)
      in Some (EARTH_RADIUS_KM * (2 * atan2 (sqrt a) (sqrt (1 - a)))))"
proof -
  have r: "0 \<le> sin ((lat2 * DEG_TO_RAD - lat1 * DEG_TO_RAD) / 2) * sin ((lat2 * DEG_TO_RAD - lat1 * DEG_TO_RAD) / 2)
            + cos (lat1 * DEG_TO_RAD) * cos (lat2 * DEG_TO_RAD)
              * sin ((lon2 - lon1) * DEG_TO_RAD / 2) * sin ((lon2 - lon1) * DEG_TO_RAD / 2) \<and>
           sin ((lat2 * DEG_TO_RAD - lat1 * DEG_TO_RAD) / 2) * sin ((lat2 * DEG_TO_RAD - lat1 * DEG_TO_RAD) / 2)
            + cos (lat1 * DEG_TO_RAD) * cos (lat2 * DEG_TO_RAD)
              * sin ((lon2 - lon1) * DEG_TO_RAD / 2) * sin ((lon2 - lon1) * DEG_TO_RAD / 2) \<le> 1"
    by (rule haversine_range)
  have d: "(lat2 - lat1) * DEG_TO_RAD = lat2 * DEG_TO_RAD - lat1 * DEG_TO_RAD"
    by (simp add: algebra_simps)
  show ?thesis
    unfolding calculateDistance_def Let_def d js_sqrt_def using r by simp
qed

lemma calculateDistance_total: "\<exists>r. calculateDistance lat1 lon1 lat2 lon2 = Some r"
  by (simp add: calculateDistance_eq Let_def)

text \<open>
  In exact arithmetic the distance is a number for all points, the same for both orders
  of the points, and 0 for two identical points.
\<close>

lemma calculateDistance_exact_symmetric:
  "calculateDistance lat1 lon1 lat2 lon2 \<noteq> None \<and>
   calculateDistance lat1 lon1 lat2 lon2 = calculateDistance lat2 lon2 lat1 lon1 \<and>
   calculateDistance lat1 lon1 lat1 lon1 = Some 0"
proof -
  have n: "calculateDistance lat1 lon1 lat2 lon2 \<noteq> None"
    using calculateDistance_total[of lat1 lon1 lat2 lon2] by auto
  have m1: "(lat1 * DEG_TO_RAD - lat2 * DEG_TO_RAD) / 2 = - ((lat2 * DEG_TO_RAD - lat1 * DEG_TO_RAD) / 2)"
    by (simp add: field_simps)
  have m2: "(lon1 - lon2) * DEG_TO_RAD / 2 = - ((lon2 - lon1) * DEG_TO_RAD / 2)"
    by (simp add: field_simps)
  have s: "calculateDistance lat1 lon1 lat2 lon2 = calculateDistance lat2 lon2 lat1 lon1"
    unfolding calculateDistance_eq m1 m2 sin_minus by (simp add: mult.commute)
  have z: "calculateDistance lat1 lon1 lat1 lon1 = Some 0"
    by (simp add: calculateDistance_eq atan2_def)
  from n s z show ?thesis by blast
qed

section \<open>Polar angles\<close>

lemma radius_pos:
  fixes x y r :: real
  assumes "0 \<le> r" "r\<^sup>2 = x\<^sup>2 + y\<^sup>2" "x \<noteq> 0"
  shows "0 < r"
proof -
  have "0 < x\<^sup>2" using assms(3) by simp
  then have "0 < r\<^sup>2" using assms(2) by (simp add: add_pos_nonneg)
  then have "r \<noteq> 0" by auto
  with assms(1) show ?thesis by simp
qed

lemma atan2_polar:
  fixes x y r :: real
  assumes r: "0 \<le> r" "r\<^sup>2 = x\<^sup>2 + y\<^sup>2"
  shows "r * cos (atan2 y x) = x \<and> r * sin (atan2 y x) = y"
proof -
  consider (pos) "0 < x" | (neg) "x < 0" | (zero) "x = 0" by linarith
  then show ?thesis
  proof cases
    case zero
    then have "r\<^sup>2 = y\<^sup>2" using r by simp
    then have "\<bar>r\<bar> = \<bar>y\<bar>" by (simp add: power2_eq_iff abs_eq_iff)
    then have ry: "r = \<bar>y\<bar>" using r(1) by simp
    show ?thesis using zero ry by (auto simp: atan2_def)
  next
    case pos
    define t where "t = y / x"
    have "1 + t\<^sup>2 = r\<^sup>2 / x\<^sup>2" using pos r(2) by (simp add: t_def field_simps power2_eq_square)
    then have "sqrt (1 + t\<^sup>2) = r / x"
      using pos r(1) by (simp add: real_sqrt_divide)
    then have c: "cos (arctan t) = x / r" and s: "sin (arctan t) = t * x / r"
      by (simp_all add: cos_arctan sin_arctan)
    have rpos: "0 < r" using radius_pos[OF r] pos by simp
    show ?thesis using pos rpos c s by (simp add: atan2_def t_def)
  next
    case neg
    define t where "t = y / x"
    have "1 + t\<^sup>2 = r\<^sup>2 / x\<^sup>2" using neg r(2) by (simp add: t_def field_simps power2_eq_square)
    then have "sqrt (1 + t\<^sup>2) = r / \<bar>x\<bar>"
      using neg r(1) by (simp add: real_sqrt_divide)
    then have c: "cos (arctan t) = - x / r" and s: "sin (arctan t) = - (t * x / r)"
      using neg by (simp_all add: cos_arctan sin_arctan)
    have rpos: "0 < r" using radius_pos[OF r] neg by simp
    show ?thesis using neg rpos c s by (auto simp: atan2_def t_def)
  qed
qed


lemma sin_cos_unique:
  fixes a b :: real
  assumes "sin a = sin b" "cos a = cos b" "- pi < a" "a \<le> pi" "- pi < b" "b \<le> pi"
  shows "a = b"
proof -
  have "cos (a - b) = cos a * cos b + sin a * sin b" by (rule cos_diff)
  also have "\<dots> = (cos b)\<^sup>2 + (sin b)\<^sup>2" using assms(1,2) by (simp add: power2_eq_square)
  also have "\<dots> = 1" by simp
  finally have "cos (a - b) = 1" .
  then obtain n :: int where "a - b = of_int n * 2 * pi"
    using cos_one_2pi_int[of "a - b"] by auto
  then have n: "a - b = of_int n * (2 * pi)" by simp
  have "\<bar>a - b\<bar> < 2 * pi" using assms(3-6) by linarith
  then have "\<bar>of_int n * (2 * pi)\<bar> < 1 * (2 * pi)" using n by simp
  then have "\<bar>of_int n :: real\<bar> < 1"
    by (simp add: abs_mult)
  then have "n = 0" by linarith
  with n show ?thesis by simp
qed

lemma atan2_sin_cos:
  fixes k t :: real
  assumes "0 < k" "- pi < t" "t \<le> pi"
  shows "atan2 (k * sin t) (k * cos t) = t"
proof -
  define L where "L = atan2 (k * sin t) (k * cos t)"
  have sq: "k\<^sup>2 = (k * cos t)\<^sup>2 + (k * sin t)\<^sup>2"
  proof -
    have "(k * cos t)\<^sup>2 + (k * sin t)\<^sup>2 = k\<^sup>2 * ((cos t)\<^sup>2 + (sin t)\<^sup>2)"
      by (simp only: power_mult_distrib distrib_left)
    also have "\<dots> = k\<^sup>2" by simp
    finally show ?thesis by (rule sym)
  qed
  have k0: "0 \<le> k" using assms(1) by simp
  have "k * cos L = k * cos t \<and> k * sin L = k * sin t"
    unfolding L_def using k0 sq by (rule atan2_polar)
  then have c: "cos L = cos t" and s: "sin L = sin t"
    using assms(1) by simp_all
  have b: "- pi < L" "L \<le> pi"
    unfolding L_def using atan2_bounds by blast+
  have "L = t"
    using s c b assms(2,3) by (rule sin_cos_unique)
  then show ?thesis unfolding L_def .
qed

lemma atan2_quadrant:
  assumes "0 \<le> y" "0 \<le> x"
  shows "0 \<le> atan2 y x \<and> atan2 y x \<le> pi / 2"
proof -
  have "arctan (y / x) < pi / 2" by (rule arctan_ubound)
  moreover have "0 \<le> arctan (y / x)" using assms by simp
  ultimately show ?thesis using assms by (auto simp: atan2_def)
qed

text \<open>The target's direction vector has unit length.\<close>

lemma two_squares:
  fixes a b c d :: real
  shows "(a * c + b * d)\<^sup>2 + (b * c - a * d)\<^sup>2 = (a\<^sup>2 + b\<^sup>2) * (c\<^sup>2 + d\<^sup>2)"
  by (simp add: power2_eq_square algebra_simps)

lemma unit_vector:
  fixes p t dl :: real
  defines "z \<equiv> sin p * cos dl + cos p * sin dl * cos t"
    and "w \<equiv> cos p * cos dl - sin p * sin dl * cos t"
    and "v \<equiv> sin dl * sin t"
  shows "z\<^sup>2 + w\<^sup>2 + v\<^sup>2 = 1"
proof -
  have "z\<^sup>2 + w\<^sup>2 = ((sin p)\<^sup>2 + (cos p)\<^sup>2) * ((cos dl)\<^sup>2 + (sin dl * cos t)\<^sup>2)"
    unfolding z_def w_def
    using two_squares[of "sin p" "cos dl" "cos p" "sin dl * cos t"] by (simp only: mult.assoc)
  then have zw: "z\<^sup>2 + w\<^sup>2 = (cos dl)\<^sup>2 + (sin dl)\<^sup>2 * (cos t)\<^sup>2"
    by (simp add: power_mult_distrib)
  have "(sin dl)\<^sup>2 * (cos t)\<^sup>2 + v\<^sup>2 = (sin dl)\<^sup>2 * ((cos t)\<^sup>2 + (sin t)\<^sup>2)"
    unfolding v_def by (simp only: power_mult_distrib distrib_left)
  then have "(sin dl)\<^sup>2 * (cos t)\<^sup>2 + v\<^sup>2 = (sin dl)\<^sup>2" by simp
  with zw have "z\<^sup>2 + w\<^sup>2 + v\<^sup>2 = (cos dl)\<^sup>2 + (sin dl)\<^sup>2" by linarith
  then show ?thesis by simp
qed

section \<open>The destination point\<close>

lemma asin_argument_range:
  fixes p t dl :: real
  shows "- 1 \<le> sin p * cos dl + cos p * sin dl * cos t \<and> sin p * cos dl + cos p * sin dl * cos t \<le> 1"
proof -
  define z where "z = sin p * cos dl + cos p * sin dl * cos t"
  define w where "w = cos p * cos dl - sin p * sin dl * cos t"
  define v where "v = sin dl * sin t"
  have "z\<^sup>2 + w\<^sup>2 + v\<^sup>2 = 1" unfolding z_def w_def v_def by (rule unit_vector)
  moreover have "0 \<le> w\<^sup>2" "0 \<le> v\<^sup>2" by simp_all
  ultimately have "z\<^sup>2 \<le> 1" by linarith
  then have "\<bar>z\<bar> \<le> 1" by (simp add: abs_square_le_1)
  then show ?thesis unfolding z_def by (simp add: abs_le_iff) 
qed

lemma calculateTargetCoordinate_eq:
  "calculateTargetCoordinate la lo az d =
     (let z = sin (la * DEG_TO_RAD) * cos (d / EARTH_RADIUS_KM)
              + cos (la * DEG_TO_RAD) * sin (d / EARTH_RADIUS_KM) * cos (az * DEG_TO_RAD)
      in Some \<lparr>lat = arcsin z * RAD_TO_DEG,
               lon = rem360 ((lo * DEG_TO_RAD
                      + atan2 (sin (az * DEG_TO_RAD) * sin (d / EARTH_RADIUS_KM) * cos (la * DEG_TO_RAD))
                              (cos (d / EARTH_RADIUS_KM) - sin (la * DEG_TO_RAD) * z)) * RAD_TO_DEG + 540) - 180\<rparr>)"
proof -
  note r = asin_argument_range[of "la * DEG_TO_RAD" "d / EARTH_RADIUS_KM" "az * DEG_TO_RAD"]
  show ?thesis
    unfolding calculateTargetCoordinate_def Let_def js_asin_def using r by simp
qed

lemma target_lat_range:
  assumes "calculateTargetCoordinate la lo az d = Some p"
  shows "- 90 \<le> lat p \<and> lat p \<le> 90"
proof -
  define z where "z = sin (la * DEG_TO_RAD) * cos (d / EARTH_RADIUS_KM)
              + cos (la * DEG_TO_RAD) * sin (d / EARTH_RADIUS_KM) * cos (az * DEG_TO_RAD)"
  have zr: "- 1 \<le> z" "z \<le> 1" unfolding z_def using asin_argument_range by blast+
  have l: "lat p = arcsin z * RAD_TO_DEG"
    using assms unfolding calculateTargetCoordinate_eq Let_def z_def by auto
  have "- (pi / 2) \<le> arcsin z" "arcsin z \<le> pi / 2"
    using zr by (rule arcsin_lbound, rule arcsin_ubound)
  then have "- (pi / 2) * (180 / pi) \<le> arcsin z * (180 / pi)" "arcsin z * (180 / pi) \<le> (pi / 2) * (180 / pi)"
    by (simp_all add: field_simps)
  then show ?thesis unfolding l RAD_TO_DEG_def by simp
qed

lemma target_lon_less:
  assumes "calculateTargetCoordinate la lo az d = Some p"
  shows "lon p < 180"
proof -
  obtain raw where "lon p = rem360 (raw + 540) - 180"
    using assms unfolding calculateTargetCoordinate_eq Let_def by auto
  then show ?thesis using rem360_less[of "raw + 540"] by simp
qed

lemma target_lon_lower:
  assumes "calculateTargetCoordinate la lo az d = Some p" and "- 180 \<le> lo"
  shows "- 180 \<le> lon p"
proof -
  define L where "L = atan2 (sin (az * DEG_TO_RAD) * sin (d / EARTH_RADIUS_KM) * cos (la * DEG_TO_RAD))
                              (cos (d / EARTH_RADIUS_KM) - sin (la * DEG_TO_RAD) * (sin (la * DEG_TO_RAD) * cos (d / EARTH_RADIUS_KM)
              + cos (la * DEG_TO_RAD) * sin (d / EARTH_RADIUS_KM) * cos (az * DEG_TO_RAD)))"
  have l: "lon p = rem360 ((lo * DEG_TO_RAD + L) * RAD_TO_DEG + 540) - 180"
    using assms(1) unfolding calculateTargetCoordinate_eq Let_def L_def by auto
  have "- pi < L" unfolding L_def using atan2_bounds by blast
  then have "- pi * (180 / pi) \<le> L * (180 / pi)" by (simp add: field_simps)
  then have "- 180 \<le> L * RAD_TO_DEG" unfolding RAD_TO_DEG_def by simp
  moreover have "(lo * DEG_TO_RAD + L) * RAD_TO_DEG = lo + L * RAD_TO_DEG"
    by (simp add: algebra_simps RAD_TO_DEG_def DEG_TO_RAD_def)
  ultimately have "0 \<le> (lo * DEG_TO_RAD + L) * RAD_TO_DEG + 540" using assms(2) by linarith
  from rem360_nonneg[OF this] show ?thesis unfolding l by simp
qed

section \<open>Forward and inverse solution\<close>

lemma east_factor:
  fixes p t dl :: real
  shows "cos dl - sin p * (sin p * cos dl + cos p * sin dl * cos t)
         = cos p * (cos p * cos dl - sin p * sin dl * cos t)"
proof -
  have "cos dl - sin p * (sin p * cos dl + cos p * sin dl * cos t)
        = cos dl * (1 - (sin p)\<^sup>2) - sin p * cos p * sin dl * cos t"
    by (simp add: algebra_simps power2_eq_square)
  also have "1 - (sin p)\<^sup>2 = (cos p)\<^sup>2"
    by (simp add: cos_squared_eq)
  finally show ?thesis by (simp add: algebra_simps power2_eq_square)
qed

lemma forward_polar:
  fixes p t dl :: real
  assumes cp: "0 \<le> cos p"
  defines "z \<equiv> sin p * cos dl + cos p * sin dl * cos t"
  defines "L \<equiv> atan2 (sin t * sin dl * cos p) (cos dl - sin p * z)"
  shows "cos p * cos (arcsin z) * cos L = cos dl - sin p * z"
    and "cos p * cos (arcsin z) * sin L = sin t * sin dl * cos p"
proof -
  define w where "w = cos p * cos dl - sin p * sin dl * cos t"
  define v where "v = sin dl * sin t"
  have unit: "z\<^sup>2 + w\<^sup>2 + v\<^sup>2 = 1" unfolding z_def w_def v_def by (rule unit_vector)
  have zr: "- 1 \<le> z" "z \<le> 1" unfolding z_def using asin_argument_range by blast+
  have c2: "0 \<le> cos (arcsin z)"
    using arcsin_lbound[OF zr] arcsin_ubound[OF zr] by (rule cos_ge_zero)
  have "(cos (arcsin z))\<^sup>2 = 1 - (sin (arcsin z))\<^sup>2" by (simp add: cos_squared_eq)
  also have "\<dots> = 1 - z\<^sup>2" using zr by simp
  finally have c2sq: "(cos (arcsin z))\<^sup>2 = w\<^sup>2 + v\<^sup>2" using unit by linarith
  have x: "cos dl - sin p * z = cos p * w" unfolding z_def w_def by (rule east_factor)
  have y: "sin t * sin dl * cos p = cos p * v" unfolding v_def by simp
  have r0: "0 \<le> cos p * cos (arcsin z)" using cp c2 by simp
  have "(cos p * cos (arcsin z))\<^sup>2 = (cos p)\<^sup>2 * (w\<^sup>2 + v\<^sup>2)"
    unfolding power_mult_distrib c2sq ..
  also have "\<dots> = (cos p * w)\<^sup>2 + (cos p * v)\<^sup>2"
    by (simp only: power_mult_distrib distrib_left)
  finally have rsq: "(cos p * cos (arcsin z))\<^sup>2 = (cos dl - sin p * z)\<^sup>2 + (sin t * sin dl * cos p)\<^sup>2"
    unfolding x y .
  have "cos p * cos (arcsin z) * cos L = cos dl - sin p * z \<and> cos p * cos (arcsin z) * sin L = sin t * sin dl * cos p"
    unfolding L_def using r0 rsq by (rule atan2_polar)
  then show "cos p * cos (arcsin z) * cos L = cos dl - sin p * z"
    and "cos p * cos (arcsin z) * sin L = sin t * sin dl * cos p" by blast+
qed

lemma cos_shift: "cos (L + 2 * pi * of_int m) = cos L" for L :: real
  by (simp add: cos_add)

lemma sin_shift: "sin (L + 2 * pi * of_int m) = sin L" for L :: real
  by (simp add: sin_add)

text \<open>The haversine term of the computed target is that of the angular distance.\<close>

lemma forward_haversine:
  fixes p t dl :: real and m :: int
  assumes cp: "0 \<le> cos p"
  defines "z \<equiv> sin p * cos dl + cos p * sin dl * cos t"
  defines "L \<equiv> atan2 (sin t * sin dl * cos p) (cos dl - sin p * z)"
  defines "dlam \<equiv> L + 2 * pi * of_int m"
  shows "sin ((arcsin z - p) / 2) * sin ((arcsin z - p) / 2)
           + cos p * cos (arcsin z) * sin (dlam / 2) * sin (dlam / 2)
         = sin (dl / 2) * sin (dl / 2)"
proof -
  define h where "h = sin ((arcsin z - p) / 2) * sin ((arcsin z - p) / 2)
           + cos p * cos (arcsin z) * sin (dlam / 2) * sin (dlam / 2)"
  define g where "g = sin (dl / 2) * sin (dl / 2)"
  have zr: "- 1 \<le> z" "z \<le> 1" unfolding z_def using asin_argument_range by blast+
  have "1 - 2 * h = sin p * sin (arcsin z) + cos p * cos (arcsin z) * cos dlam"
    unfolding h_def by (rule haversine_cos)
  also have "cos dlam = cos L" unfolding dlam_def by (rule cos_shift)
  also have "cos p * cos (arcsin z) * cos L = cos dl - sin p * z"
    unfolding L_def z_def using cp by (rule forward_polar(1))
  also have "sin (arcsin z) = z" using zr by simp
  finally have "1 - 2 * h = cos dl" by simp
  moreover have "g = (1 - cos dl) / 2" unfolding g_def by (rule sin_half_sq)
  ultimately have "h = g" by (simp add: field_simps)
  then show ?thesis unfolding h_def g_def .
qed


section \<open>The distance round trip\<close>

text \<open>
  In exact arithmetic, for a latitude in \<open>[-90, 90]\<close> and a distance that is positive and
  at most half a great circle (\<open>\<pi> * 6371\<close> km), the distance from the observer to the
  destination point is the distance given.  A tolerance on this round trip is a bound
  on the rounding error of the doubles and of the engine's functions alone.
\<close>

lemma roundTripDistance_exact:
  assumes la: "- 90 \<le> la" "la \<le> 90" and lo: "- 180 \<le> lo" "lo \<le> 180"
    and az: "0 \<le> az" "az \<le> 360" and d: "0 < d" "d \<le> pi * EARTH_RADIUS_KM"
  shows "roundTripDistance la lo az d = Some d"
proof -
  define p where "p = la * DEG_TO_RAD"
  define t where "t = az * DEG_TO_RAD"
  define dl where "dl = d / EARTH_RADIUS_KM"
  define z where "z = sin p * cos dl + cos p * sin dl * cos t"
  define L where "L = atan2 (sin t * sin dl * cos p) (cos dl - sin p * z)"
  define tlon where "tlon = rem360 ((lo * DEG_TO_RAD + L) * RAD_TO_DEG + 540) - 180"
  have tgt: "calculateTargetCoordinate la lo az d = Some \<lparr>lat = arcsin z * RAD_TO_DEG, lon = tlon\<rparr>"
    unfolding calculateTargetCoordinate_eq Let_def tlon_def L_def z_def p_def t_def dl_def
    by (simp add: mult.commute mult.left_commute)
  have "- (pi / 2) \<le> p" "p \<le> pi / 2"
    unfolding p_def using deg_le[OF la(1)] deg_le[OF la(2)] by (simp_all add: deg_values)
  then have cp: "0 \<le> cos p" by (rule cos_ge_zero)
  obtain k :: int where k: "rem360 ((lo * DEG_TO_RAD + L) * RAD_TO_DEG + 540)
      = (lo * DEG_TO_RAD + L) * RAD_TO_DEG + 540 - 360 * of_int k"
    using rem360_shift by blast
  have "(tlon - lo) * DEG_TO_RAD = L + 2 * pi * of_int (1 - k)"
    unfolding tlon_def k by (simp add: DEG_TO_RAD_def RAD_TO_DEG_def field_simps)
  then have dlam: "(tlon - lo) * DEG_TO_RAD / 2 = (L + 2 * pi * of_int (1 - k)) / 2" by simp
  have lat2: "arcsin z * RAD_TO_DEG * DEG_TO_RAD = arcsin z"
    by (simp add: mult.assoc)
  have hav: "sin ((arcsin z - p) / 2) * sin ((arcsin z - p) / 2)
           + cos p * cos (arcsin z) * sin ((L + 2 * pi * of_int (1 - k)) / 2) * sin ((L + 2 * pi * of_int (1 - k)) / 2)
         = sin (dl / 2) * sin (dl / 2)"
    unfolding L_def z_def using cp by (rule forward_haversine)
  have dl: "0 \<le> dl / 2" "dl / 2 \<le> pi / 2"
    unfolding dl_def using d by (simp_all add: EARTH_RADIUS_KM_def field_simps)
  have s0: "0 \<le> sin (dl / 2)" using dl by (intro sin_ge_zero) linarith+
  have c0: "0 \<le> cos (dl / 2)" using dl by (intro cos_ge_zero) linarith+
  have "1 - sin (dl / 2) * sin (dl / 2) = cos (dl / 2) * cos (dl / 2)"
    using sin_cos_squared_add[of "dl / 2"] by (simp add: power2_eq_square)
  then have r2: "sqrt (1 - sin (dl / 2) * sin (dl / 2)) = cos (dl / 2)"
    using c0 by simp
  have r1: "sqrt (sin (dl / 2) * sin (dl / 2)) = sin (dl / 2)" using s0 by simp
  have "atan2 (1 * sin (dl / 2)) (1 * cos (dl / 2)) = dl / 2"
    using dl pi_gt_zero by (intro atan2_sin_cos) linarith+
  then have at: "atan2 (sin (dl / 2)) (cos (dl / 2)) = dl / 2" by simp
  have "calculateDistance la lo (arcsin z * RAD_TO_DEG) tlon = Some (EARTH_RADIUS_KM * (2 * (dl / 2)))"
    unfolding calculateDistance_eq Let_def lat2 dlam p_def[symmetric] hav r1 r2 at ..
  also have "EARTH_RADIUS_KM * (2 * (dl / 2)) = d"
    unfolding dl_def by (simp add: EARTH_RADIUS_KM_def)
  finally show ?thesis unfolding roundTripDistance_def tgt by simp
qed

lemma calculateDistance_upper:
  assumes "calculateDistance lat1 lon1 lat2 lon2 = Some r"
  shows "0 \<le> r \<and> r \<le> pi * EARTH_RADIUS_KM"
proof -
  define a where "a = sin ((lat2 * DEG_TO_RAD - lat1 * DEG_TO_RAD) / 2)
            * sin ((lat2 * DEG_TO_RAD - lat1 * DEG_TO_RAD) / 2)
          + cos (lat1 * DEG_TO_RAD) * cos (lat2 * DEG_TO_RAD)
            * sin ((lon2 - lon1) * DEG_TO_RAD / 2) * sin ((lon2 - lon1) * DEG_TO_RAD / 2)"
  have "0 \<le> a \<and> a \<le> 1" unfolding a_def by (rule haversine_range)
  then have a: "0 \<le> a" "a \<le> 1" by simp_all
  have r: "r = EARTH_RADIUS_KM * (2 * atan2 (sqrt a) (sqrt (1 - a)))"
    using assms unfolding calculateDistance_eq Let_def a_def by simp
  have "0 \<le> atan2 (sqrt a) (sqrt (1 - a)) \<and> atan2 (sqrt a) (sqrt (1 - a)) \<le> pi / 2"
    using a by (intro atan2_quadrant) simp_all
  then show ?thesis unfolding r EARTH_RADIUS_KM_def by simp
qed

lemma roundTripDistance_upper:
  assumes "roundTripDistance la lo az d = Some r"
  shows "r \<le> pi * EARTH_RADIUS_KM"
proof -
  obtain p :: coordinate where "calculateDistance la lo (lat p) (lon p) = Some r"
    using assms unfolding roundTripDistance_def by (auto split: bind_splits)
  then show ?thesis using calculateDistance_upper by blast
qed

lemma roundTripDistance_total: "\<exists>r. roundTripDistance la lo az d = Some r"
  unfolding roundTripDistance_def calculateTargetCoordinate_eq Let_def
  using calculateDistance_total by simp

text \<open>
  The haversine distance is the shorter arc and never exceeds half a great circle, about
  20015 km.  A target 30000 km away is therefore not measured back as 30000 km.
\<close>

lemma roundTripDistance_beyond_half_circle: "\<not> agrees_within (1 / 10 ^ 6) (roundTripDistance 0 0 0 30000) 30000"
proof -
  obtain r where r: "roundTripDistance 0 0 0 30000 = Some r"
    using roundTripDistance_total by blast
  have "r \<le> pi * EARTH_RADIUS_KM" using r by (rule roundTripDistance_upper)
  also have "\<dots> \<le> 4 * 6371"
    unfolding EARTH_RADIUS_KM_def using pi_less_4 by simp
  finally have "r \<le> 25484" by simp
  then show ?thesis unfolding r by simp
qed

section \<open>Range of the destination point\<close>

text \<open>
  In exact arithmetic the argument of the arc sine lies in \<open>[-1, 1]\<close> (lemma
  \<open>asin_argument_range\<close>): for an observer in the valid range the destination point has
  its latitude in \<open>[-90, 90]\<close> and its longitude in \<open>[-180, 180]\<close>, and the longitude is the
  raw longitude put through \<open>((lon + 540) % 360) - 180\<close> whatever its value.  A result
  that is NaN can only come from rounding, and clamping the argument is the repair.
\<close>

lemma calculateTargetCoordinate_exact_range:
  assumes "- 90 \<le> la" "la \<le> 90" "- 180 \<le> lo" "lo \<le> 180" "0 < d"
  shows "\<exists>p. calculateTargetCoordinate la lo az d = Some p \<and>
           - 90 \<le> lat p \<and> lat p \<le> 90 \<and> - 180 \<le> lon p \<and> lon p \<le> 180 \<and>
           lon p = rem360 ((lo * DEG_TO_RAD
                     + atan2 (sin (az * DEG_TO_RAD) * sin (d / EARTH_RADIUS_KM) * cos (la * DEG_TO_RAD))
                             (cos (d / EARTH_RADIUS_KM) - sin (la * DEG_TO_RAD) * sin (lat p * DEG_TO_RAD)))
                    * RAD_TO_DEG + 540) - 180"
proof -
  define z where "z = sin (la * DEG_TO_RAD) * cos (d / EARTH_RADIUS_KM)
              + cos (la * DEG_TO_RAD) * sin (d / EARTH_RADIUS_KM) * cos (az * DEG_TO_RAD)"
  have zr: "- 1 \<le> z" "z \<le> 1" unfolding z_def using asin_argument_range by blast+
  obtain p where p: "calculateTargetCoordinate la lo az d = Some p"
    by (simp add: calculateTargetCoordinate_eq Let_def)
  have la2: "lat p = arcsin z * RAD_TO_DEG"
    using p unfolding calculateTargetCoordinate_eq Let_def z_def by auto
  have "sin (lat p * DEG_TO_RAD) = z"
    unfolding la2 using zr by (simp add: mult.assoc)
  then have lo2: "lon p = rem360 ((lo * DEG_TO_RAD
                     + atan2 (sin (az * DEG_TO_RAD) * sin (d / EARTH_RADIUS_KM) * cos (la * DEG_TO_RAD))
                             (cos (d / EARTH_RADIUS_KM) - sin (la * DEG_TO_RAD) * sin (lat p * DEG_TO_RAD)))
                    * RAD_TO_DEG + 540) - 180"
    using p unfolding calculateTargetCoordinate_eq Let_def z_def by auto
  have "lon p < 180" using p by (rule target_lon_less)
  moreover have "- 180 \<le> lon p" using p assms(3) by (rule target_lon_lower)
  moreover note target_lat_range[OF p]
  ultimately show ?thesis using p lo2 by (intro exI[of _ p]) simp
qed

lemma target_due_north_from_180:
  assumes "- 90 < la" "0 \<le> d" "la * DEG_TO_RAD + d / EARTH_RADIUS_KM < pi / 2"
  shows "map_option lon (calculateTargetCoordinate la 180 0 d) = Some (- 180)"
proof -
  define p where "p = la * DEG_TO_RAD"
  define dl where "dl = d / EARTH_RADIUS_KM"
  have dl0: "0 \<le> dl" unfolding dl_def using assms(2) by (simp add: EARTH_RADIUS_KM_def)
  have p1: "- (pi / 2) < p" unfolding p_def using deg_less[OF assms(1)] by (simp add: deg_values)
  have p2: "p + dl < pi / 2" unfolding p_def dl_def by (rule assms(3))
  have cp: "0 < cos p" using p1 p2 dl0 by (intro cos_gt_zero_pi) linarith+
  have cpd: "0 < cos (p + dl)" using p1 p2 dl0 by (intro cos_gt_zero_pi) linarith+
  have "cos dl - sin p * (sin p * cos dl + cos p * sin dl * cos 0)
        = cos p * (cos p * cos dl - sin p * sin dl * cos 0)" by (rule east_factor)
  also have "\<dots> = cos p * cos (p + dl)" by (simp add: cos_add)
  finally have x: "0 < cos dl - sin p * (sin p * cos dl + cos p * sin dl)"
    using cp cpd by simp
  have "rem360 720 = 720 - 360 * of_int (trunc (720 / 360))" by (simp only: rem360_def)
  then have r: "rem360 720 = 0" by (simp add: trunc_def)
  show ?thesis
    unfolding calculateTargetCoordinate_eq Let_def p_def[symmetric] dl_def[symmetric]
    using x by (simp add: atan2_def deg_values RAD_TO_DEG_def r)
qed

text \<open>
  In exact arithmetic the longitude of the destination point is strictly below 180, and
  a target exactly on the antimeridian comes out as -180: so for an observer at
  longitude 180 looking due north, at any distance that does not reach the pole.
\<close>

lemma target_longitude_exact_below_180:
  "(\<exists>p. calculateTargetCoordinate la lo az d = Some p \<and> lon p < 180) \<and>
   (- 90 < la' \<and> 0 \<le> d' \<and> la' * DEG_TO_RAD + d' / EARTH_RADIUS_KM < pi / 2 \<longrightarrow>
      map_option lon (calculateTargetCoordinate la' 180 0 d') = Some (- 180))"
proof -
  obtain p where p: "calculateTargetCoordinate la lo az d = Some p"
    by (simp add: calculateTargetCoordinate_eq Let_def)
  then have "lon p < 180" by (rule target_lon_less)
  with p target_due_north_from_180[of la' d'] show ?thesis by blast
qed

section \<open>The bearing round trip\<close>

lemma north_factor:
  fixes p t dl :: real
  shows "cos p * (sin p * cos dl + cos p * sin dl * cos t)
         - sin p * (cos p * cos dl - sin p * sin dl * cos t) = sin dl * cos t"
proof -
  have id: "c * (s * x + c * y) - s * (c * x - s * y) = (c\<^sup>2 + s\<^sup>2) * y" for c s x y :: real
    by (simp add: algebra_simps power2_eq_square)
  have "cos p * (sin p * cos dl + cos p * (sin dl * cos t))
         - sin p * (cos p * cos dl - sin p * (sin dl * cos t))
        = ((cos p)\<^sup>2 + (sin p)\<^sup>2) * (sin dl * cos t)"
    by (rule id)
  then show ?thesis by (simp add: mult.assoc)
qed

text \<open>The recomputed bearing is the polar angle of the direction of departure.\<close>

lemma roundTripBearing_polar:
  assumes la: "- 90 < la" "la < 90"
  shows "roundTripBearing la lo az d =
     Some (rem360 (atan2 (sin (d / EARTH_RADIUS_KM) * sin (az * DEG_TO_RAD))
                         (sin (d / EARTH_RADIUS_KM) * cos (az * DEG_TO_RAD)) * RAD_TO_DEG + 360))"
proof -
  define p where "p = la * DEG_TO_RAD"
  define t where "t = az * DEG_TO_RAD"
  define dl where "dl = d / EARTH_RADIUS_KM"
  define z where "z = sin p * cos dl + cos p * sin dl * cos t"
  define w where "w = cos p * cos dl - sin p * sin dl * cos t"
  define L where "L = atan2 (sin t * sin dl * cos p) (cos dl - sin p * z)"
  define tlon where "tlon = rem360 ((lo * DEG_TO_RAD + L) * RAD_TO_DEG + 540) - 180"
  have tgt: "calculateTargetCoordinate la lo az d = Some \<lparr>lat = arcsin z * RAD_TO_DEG, lon = tlon\<rparr>"
    unfolding calculateTargetCoordinate_eq Let_def tlon_def L_def z_def p_def t_def dl_def
    by (simp add: mult.commute mult.left_commute)
  have "- (pi / 2) < p" "p < pi / 2"
    unfolding p_def using deg_less[OF la(1)] deg_less[OF la(2)] by (simp_all add: deg_values)
  then have cp: "0 < cos p" by (rule cos_gt_zero_pi)
  have zr: "- 1 \<le> z" "z \<le> 1" unfolding z_def using asin_argument_range by blast+
  obtain k :: int where k: "rem360 ((lo * DEG_TO_RAD + L) * RAD_TO_DEG + 540)
      = (lo * DEG_TO_RAD + L) * RAD_TO_DEG + 540 - 360 * of_int k"
    using rem360_shift by blast
  have dlam: "(tlon - lo) * DEG_TO_RAD = L + 2 * pi * of_int (1 - k)"
    unfolding tlon_def k by (simp add: DEG_TO_RAD_def RAD_TO_DEG_def field_simps)
  have lat2: "arcsin z * RAD_TO_DEG * DEG_TO_RAD = arcsin z"
    by (simp add: mult.assoc)
  have "cos p * cos (arcsin z) * cos L = cos dl - sin p * z"
    unfolding L_def z_def using cp by (intro forward_polar(1)) simp
  also have "\<dots> = cos p * w" unfolding z_def w_def by (rule east_factor)
  finally have "cos p * (cos (arcsin z) * cos L) = cos p * w" by (simp add: mult.assoc)
  then have cL: "cos (arcsin z) * cos L = w" using cp by simp
  have "cos p * cos (arcsin z) * sin L = sin t * sin dl * cos p"
    unfolding L_def z_def using cp by (intro forward_polar(2)) simp
  then have "cos p * (cos (arcsin z) * sin L) = cos p * (sin t * sin dl)" by (simp add: mult.assoc mult.commute)
  then have sL: "cos (arcsin z) * sin L = sin t * sin dl" using cp by simp
  have y: "sin (L + 2 * pi * of_int (1 - k)) * cos (arcsin z) = sin dl * sin t"
    unfolding sin_shift using sL by (simp add: mult.commute)
  have "cos p * sin (arcsin z) - sin p * cos (arcsin z) * cos (L + 2 * pi * of_int (1 - k))
        = cos p * z - sin p * (cos (arcsin z) * cos L)"
    unfolding cos_shift using zr by (simp add: mult.assoc)
  also have "\<dots> = cos p * z - sin p * w" unfolding cL ..
  also have "\<dots> = sin dl * cos t" unfolding z_def w_def by (rule north_factor)
  finally have x: "cos p * sin (arcsin z) - sin p * cos (arcsin z) * cos (L + 2 * pi * of_int (1 - k))
        = sin dl * cos t" .
  have "calculateBearing la lo (arcsin z * RAD_TO_DEG) tlon
        = rem360 (atan2 (sin dl * sin t) (sin dl * cos t) * RAD_TO_DEG + 360)"
    unfolding calculateBearing_def Let_def lat2 dlam p_def[symmetric] y x ..
  then show ?thesis
    unfolding roundTripBearing_def tgt dl_def t_def by simp
qed

text \<open>
  In exact arithmetic, for a latitude strictly between -90 and 90, a bearing in
  \<open>[0, 360)\<close> and a distance that is positive and less than half a great circle
  (\<open>\<pi> * 6371\<close> km), the bearing from the observer to the destination point is the
  bearing given.  A tolerance on this round trip is a bound on the rounding error of
  the doubles and of the engine's functions alone.
\<close>

lemma roundTripBearing_exact:
  assumes la: "- 90 < la" "la < 90" and lo: "- 180 \<le> lo" "lo \<le> 180"
    and az: "0 \<le> az" "az < 360" and d: "0 < d" "d < pi * EARTH_RADIUS_KM"
  shows "roundTripBearing la lo az d = Some az"
proof -
  define t where "t = az * DEG_TO_RAD"
  define dl where "dl = d / EARTH_RADIUS_KM"
  have "0 < dl" "dl < pi"
    unfolding dl_def using d by (simp_all add: EARTH_RADIUS_KM_def field_simps)
  then have sd: "0 < sin dl" by (rule sin_gt_zero)
  have t: "0 \<le> t" "t < 2 * pi"
    unfolding t_def using deg_le[OF az(1)] deg_less[OF az(2)] by (simp_all add: deg_values)
  have b: "roundTripBearing la lo az d
      = Some (rem360 (atan2 (sin dl * sin t) (sin dl * cos t) * RAD_TO_DEG + 360))"
    unfolding dl_def t_def using la by (rule roundTripBearing_polar)
  show ?thesis
  proof (cases "t \<le> pi")
    case True
    have "atan2 (sin dl * sin t) (sin dl * cos t) = t"
      using sd t True by (intro atan2_sin_cos) linarith+
    then have "roundTripBearing la lo az d = Some (rem360 (az + 360))"
      unfolding b by (simp add: t_def rad_deg)
    moreover have "rem360 (az + 360) = az + 360 - 360"
      using az by (intro rem360_once) simp_all
    ultimately show ?thesis by simp
  next
    case False
    have "atan2 (sin dl * sin (t - 2 * pi)) (sin dl * cos (t - 2 * pi)) = t - 2 * pi"
      using sd t False by (intro atan2_sin_cos) linarith+
    moreover have "sin (t - 2 * pi) = sin t" "cos (t - 2 * pi) = cos t"
      by (simp_all add: sin_diff cos_diff)
    ultimately have "atan2 (sin dl * sin t) (sin dl * cos t) = t - 2 * pi" by simp
    moreover have "(t - 2 * pi) * RAD_TO_DEG = az - 360"
      unfolding t_def by (simp add: algebra_simps DEG_TO_RAD_def RAD_TO_DEG_def)
    ultimately have "roundTripBearing la lo az d = Some (rem360 (az - 360 + 360))"
      unfolding b by simp
    moreover have "rem360 az = az" using az by (rule rem360_id)
    ultimately show ?thesis by simp
  qed
qed

lemma pi_ge_three: "3 \<le> pi"
proof -
  have "sin (pi / 6) \<le> pi / 6" by (intro sin_x_le_x) simp
  then show ?thesis by (simp add: sin_30)
qed

lemma small_angle: "0 < 1 / EARTH_RADIUS_KM" "1 / EARTH_RADIUS_KM < pi"
  unfolding EARTH_RADIUS_KM_def using pi_ge_two by simp_all

lemma roundTripBearing_360: "roundTripBearing 0 0 360 1 = Some 0"
proof -
  have s: "0 < sin (1 / EARTH_RADIUS_KM)" using small_angle by (rule sin_gt_zero)
  have "roundTripBearing 0 0 360 1
      = Some (rem360 (atan2 (sin (1 / EARTH_RADIUS_KM) * sin (360 * DEG_TO_RAD))
                         (sin (1 / EARTH_RADIUS_KM) * cos (360 * DEG_TO_RAD)) * RAD_TO_DEG + 360))"
    by (rule roundTripBearing_polar) simp_all
  also have "\<dots> = Some (rem360 360)"
    using s by (simp add: deg_values atan2_def)
  also have "rem360 360 = 360 - 360" by (rule rem360_once) simp_all
  finally show ?thesis by simp
qed

text \<open>
  The recomputed bearing lies in \<open>[0, 360)\<close>: for the valid input bearing 360 it is 0.
\<close>

lemma roundTripBearing_at_360: "\<not> agrees_within (1 / 10 ^ 6) (roundTripBearing 0 0 360 1) 360"
  unfolding roundTripBearing_360 by simp

text \<open>
  Beyond half a great circle the target is reached the short way round, from the
  opposite direction.
\<close>

lemma roundTripBearing_beyond_half_circle: "roundTripBearing 0 0 0 30000 = Some 180"
proof -
  have "pi < 30000 / EARTH_RADIUS_KM" "30000 / EARTH_RADIUS_KM < 2 * pi"
    unfolding EARTH_RADIUS_KM_def using pi_less_4 pi_ge_three by simp_all
  then have s: "sin (30000 / EARTH_RADIUS_KM) < 0" by (rule sin_lt_zero)
  have "roundTripBearing 0 0 0 30000
      = Some (rem360 (atan2 (sin (30000 / EARTH_RADIUS_KM) * sin (0 * DEG_TO_RAD))
                         (sin (30000 / EARTH_RADIUS_KM) * cos (0 * DEG_TO_RAD)) * RAD_TO_DEG + 360))"
    by (rule roundTripBearing_polar) simp_all
  also have "\<dots> = Some (rem360 540)"
    using s by (simp add: atan2_def RAD_TO_DEG_def)
  also have "rem360 540 = 540 - 360" by (rule rem360_once) simp_all
  finally show ?thesis by simp
qed

section \<open>Rounding to a double\<close>

text \<open>
  A number in the binade of \<open>2^e\<close> that lies strictly between the half-way points
  around the mantissa \<open>m\<close> rounds to \<open>m * 2^(e - 52)\<close>.  The roundings below are
  instances.
\<close>

lemma pow2_powr: "pow2 e = 2 powr (of_int e)"
proof (cases "0 \<le> e")
  case True
  then have "2 powr (of_int e) = (2::real) ^ nat e"
    by (simp add: powr_real_of_int)
  with True show ?thesis by (simp add: pow2_def)
next
  case False
  then have "2 powr (of_int e) = inverse ((2::real) ^ nat (- e))"
    by (simp add: powr_real_of_int)
  with False show ?thesis by (simp add: pow2_def inverse_eq_divide)
qed

lemma exponent64_eqI:
  assumes "pow2 e \<le> \<bar>x\<bar>" "\<bar>x\<bar> < pow2 (e + 1)" "- 1022 \<le> e"
  shows "exponent64 x = e"
proof -
  have pos: "0 < \<bar>x\<bar>"
  proof -
    have "0 < pow2 e" by (simp add: pow2_def)
    with assms(1) show ?thesis by linarith
  qed
  have "2 powr (of_int e) \<le> \<bar>x\<bar> \<and> \<bar>x\<bar> < 2 powr (of_int (e + 1))"
    using assms(1,2) by (simp only: pow2_powr)
  then have "2 powr (of_int e) \<le> \<bar>x\<bar> \<and> \<bar>x\<bar> < 2 powr (of_int e + 1)" by simp
  then have "\<lfloor>log 2 \<bar>x\<bar>\<rfloor> = e"
    using pos by (simp add: floor_log_eq_powr_iff)
  then show ?thesis using assms(3) by (simp add: exponent64_def)
qed

lemma round_even_eqI:
  assumes "of_int m - 1 / 2 < t" "t < of_int m + 1 / 2"
  shows "round_even t = m"
proof (cases "of_int m \<le> t")
  case True
  then have "\<lfloor>t\<rfloor> = m" using assms(2) by (intro floor_unique) linarith+
  then show ?thesis using assms(2) by (simp add: round_even_def Let_def)
next
  case False
  then have f: "\<lfloor>t\<rfloor> = m - 1" using assms(1) by (intro floor_unique) (simp, linarith)
  have "1 / 2 < t - of_int (m - 1)" using assms(1) by simp
  then show ?thesis unfolding round_even_def Let_def f by simp
qed

lemma rnd64_eqI:
  assumes "- 1022 \<le> e" "pow2 e \<le> \<bar>x\<bar>" "\<bar>x\<bar> < pow2 (e + 1)"
    and "of_int m - 1 / 2 < x / pow2 (e - 52)" "x / pow2 (e - 52) < of_int m + 1 / 2"
  shows "rnd64 x = of_int m * pow2 (e - 52)"
proof -
  have e: "exponent64 x = e" using assms(2,3,1) by (rule exponent64_eqI)
  have "0 < pow2 e" by (simp add: pow2_def)
  then have "x \<noteq> 0" using assms(2) by auto
  moreover have "round_even (x / pow2 (e - 52)) = m" using assms(4,5) by (rule round_even_eqI)
  ultimately show ?thesis by (simp add: rnd64_def e Let_def)
qed

lemma DEG_TO_RAD_fl_value: "DEG_TO_RAD_fl = 5030569068109113 / 2 ^ 58"
proof -
  have "rnd64 (Math_PI / 180) = of_int 5030569068109113 * pow2 ((- 6) - 52)"
    by (rule rnd64_eqI) (simp_all add: pow2_def Math_PI_def)
  then show ?thesis by (simp add: pow2_def DEG_TO_RAD_fl_def)
qed

section \<open>The destination point on doubles\<close>

lemma near_pole_lat:
  "rnd64 (89.88) = 790592840836055 / 2 ^ 43"
proof -
  have "rnd64 (89.88) =
        of_int 6324742726688440 * pow2 (6 - 52)"
    by (rule rnd64_eqI) (simp_all add: pow2_def)
  then show ?thesis by (simp add: pow2_def)
qed

lemma near_pole_dist:
  "rnd64 (13.3434) = 7511666408481935 / 2 ^ 49"
proof -
  have "rnd64 (13.3434) =
        of_int 7511666408481935 * pow2 (3 - 52)"
    by (rule rnd64_eqI) (simp_all add: pow2_def)
  then show ?thesis by (simp add: pow2_def)
qed

lemma near_pole_lat1:
  "rnd64 (790592840836055 / 2 ^ 43 * (5030569068109113 / 2 ^ 58)) = 7064805435025735 / 2 ^ 52"
proof -
  have "rnd64 (790592840836055 / 2 ^ 43 * (5030569068109113 / 2 ^ 58)) =
        of_int 7064805435025735 * pow2 (0 - 52)"
    by (rule rnd64_eqI) (simp_all add: pow2_def)
  then show ?thesis by (simp add: pow2_def)
qed

lemma near_pole_bearing:
  "rnd64 (0 * (5030569068109113 / 2 ^ 58)) = 0"
  by (simp add: rnd64_def )

lemma near_pole_delta:
  "rnd64 (7511666408481935 / 2 ^ 49 / EARTH_RADIUS_KM) = 4829349491310941 / 2 ^ 61"
proof -
  have "rnd64 (7511666408481935 / 2 ^ 49 / EARTH_RADIUS_KM) =
        of_int 4829349491310941 * pow2 ((- 9) - 52)"
    by (rule rnd64_eqI) (simp_all add: pow2_def EARTH_RADIUS_KM_def)
  then show ?thesis by (simp add: pow2_def)
qed

lemma near_pole_north:
  "rnd64 (9007179499749679 / 2 ^ 53 * (4503589749861807 / 2 ^ 52)) = 9007159744775629 / 2 ^ 53"
proof -
  have "rnd64 (9007179499749679 / 2 ^ 53 * (4503589749861807 / 2 ^ 52)) =
        of_int 9007159744775629 * pow2 ((- 1) - 52)"
    by (rule rnd64_eqI) (simp_all add: pow2_def)
  then show ?thesis by (simp add: pow2_def)
qed

lemma near_pole_east:
  "rnd64 (2414671387369325 / 2 ^ 60 * (2414672980328751 / 2 ^ 60)) = 5178650180196385 / 2 ^ 70"
proof -
  have "rnd64 (2414671387369325 / 2 ^ 60 * (2414672980328751 / 2 ^ 60)) =
        of_int 5178650180196385 * pow2 ((- 18) - 52)"
    by (rule rnd64_eqI) (simp_all add: pow2_def)
  then show ?thesis by (simp add: pow2_def)
qed

lemma near_pole_east_cos:
  "rnd64 (5178650180196385 / 2 ^ 70 * 1) = 5178650180196385 / 2 ^ 70"
proof -
  have "rnd64 (5178650180196385 / 2 ^ 70 * 1) =
        of_int 5178650180196385 * pow2 ((- 18) - 52)"
    by (rule rnd64_eqI) (simp_all add: pow2_def)
  then show ?thesis by (simp add: pow2_def)
qed

lemma near_pole_asin_argument:
  "rnd64 (9007159744775629 / 2 ^ 53 + 5178650180196385 / 2 ^ 70) = 4503599627370497 / 2 ^ 52"
proof -
  have "rnd64 (9007159744775629 / 2 ^ 53 + 5178650180196385 / 2 ^ 70) =
        of_int 4503599627370497 * pow2 (0 - 52)"
    by (rule rnd64_eqI) (simp_all add: pow2_def)
  then show ?thesis by (simp add: pow2_def)
qed

text \<open>
  Claim C6.  For an observer in the valid range, any bearing and any positive distance
  the returned point should have its latitude in \<open>[-90, 90]\<close> and its longitude in
  \<open>[-180, 180]\<close>.  On doubles the argument of \<open>Math.asin\<close> is a rounded sum of rounded
  products, and the source does not clamp it: for the observer (89.88, 0), bearing 0 and
  distance 13.3434 km, which pass \<open>validateInput\<close>, it rounds to \<open>1 + 2^-52\<close>,
  \<open>Math.asin\<close> returns NaN, and both coordinates of the result are NaN.  The
  hypotheses give the values of \<open>Math.sin\<close> and \<open>Math.cos\<close> at the two angles: the doubles
  nearest to the exact sines and cosines.
\<close>

theorem calculateTargetCoordinate_NaN_near_pole:
  assumes "Math_sin M (7064805435025735 / 2 ^ 52) = 9007179499749679 / 2 ^ 53"
    and "Math_cos M (4829349491310941 / 2 ^ 61) = 4503589749861807 / 2 ^ 52"
    and "Math_cos M (7064805435025735 / 2 ^ 52) = 2414671387369325 / 2 ^ 60"
    and "Math_sin M (4829349491310941 / 2 ^ 61) = 2414672980328751 / 2 ^ 60"
    and "Math_cos M 0 = 1"
  shows "calculateTargetCoordinate_fl M (rnd64 89.88) 0 0 (rnd64 13.3434) = None"
proof -
  have arg: "rnd64 (rnd64 (Math_sin M (rnd64 (rnd64 89.88 * DEG_TO_RAD_fl)) *
                           Math_cos M (rnd64 (rnd64 13.3434 / EARTH_RADIUS_KM))) +
                    rnd64 (rnd64 (Math_cos M (rnd64 (rnd64 89.88 * DEG_TO_RAD_fl)) *
                                  Math_sin M (rnd64 (rnd64 13.3434 / EARTH_RADIUS_KM))) *
                           Math_cos M (rnd64 (0 * DEG_TO_RAD_fl))))
             = 4503599627370497 / 2 ^ 52"
    by (simp only: DEG_TO_RAD_fl_value assms
          near_pole_lat near_pole_dist near_pole_lat1
          near_pole_bearing near_pole_delta near_pole_north
          near_pole_east near_pole_east_cos near_pole_asin_argument)
  show ?thesis
    unfolding calculateTargetCoordinate_fl_def Let_def arg
    by (simp add: asin_fl_def)
qed

theorem calculateTargetCoordinate_NaN_near_pole_witness:
  "Math_sin nearest_lib (7064805435025735 / 2 ^ 52) = 9007179499749679 / 2 ^ 53 \<and>
   Math_cos nearest_lib (4829349491310941 / 2 ^ 61) = 4503589749861807 / 2 ^ 52 \<and>
   Math_cos nearest_lib (7064805435025735 / 2 ^ 52) = 2414671387369325 / 2 ^ 60 \<and>
   Math_sin nearest_lib (4829349491310941 / 2 ^ 61) = 2414672980328751 / 2 ^ 60 \<and>
   Math_cos nearest_lib 0 = 1 \<and>
   calculateTargetCoordinate_fl nearest_lib (rnd64 89.88) 0 0 (rnd64 13.3434) = None"
proof -
  have h: "Math_sin nearest_lib (7064805435025735 / 2 ^ 52) = 9007179499749679 / 2 ^ 53"
    "Math_cos nearest_lib (4829349491310941 / 2 ^ 61) = 4503589749861807 / 2 ^ 52"
    "Math_cos nearest_lib (7064805435025735 / 2 ^ 52) = 2414671387369325 / 2 ^ 60"
    "Math_sin nearest_lib (4829349491310941 / 2 ^ 61) = 2414672980328751 / 2 ^ 60"
    "Math_cos nearest_lib 0 = 1"
    by (simp_all add: nearest_lib_def sin_table_def cos_table_def)
  from calculateTargetCoordinate_NaN_near_pole [OF h] h show ?thesis by blast
qed

lemma north_from_180_lat:
  "rnd64 (89.985) = 6332131444827095 / 2 ^ 46"
proof -
  have "rnd64 (89.985) =
        of_int 6332131444827095 * pow2 (6 - 52)"
    by (rule rnd64_eqI) (simp_all add: pow2_def)
  then show ?thesis by (simp add: pow2_def)
qed

lemma north_from_180_dist:
  "rnd64 (1.6679) = 3755776909245625 / 2 ^ 51"
proof -
  have "rnd64 (1.6679) =
        of_int 7511553818491250 * pow2 (0 - 52)"
    by (rule rnd64_eqI) (simp_all add: pow2_def)
  then show ?thesis by (simp add: pow2_def)
qed

lemma north_from_180_lat1:
  "rnd64 (6332131444827095 / 2 ^ 46 * (5030569068109113 / 2 ^ 58)) = 3536529356201551 / 2 ^ 51"
proof -
  have "rnd64 (6332131444827095 / 2 ^ 46 * (5030569068109113 / 2 ^ 58)) =
        of_int 7073058712403102 * pow2 (0 - 52)"
    by (rule rnd64_eqI) (simp_all add: pow2_def)
  then show ?thesis by (simp add: pow2_def)
qed

lemma north_from_180_bearing:
  "rnd64 (0 * (5030569068109113 / 2 ^ 58)) = 0"
  by (simp add: rnd64_def )

lemma north_from_180_delta:
  "rnd64 (3755776909245625 / 2 ^ 51 / EARTH_RADIUS_KM) = 1207319276429923 / 2 ^ 62"
proof -
  have "rnd64 (3755776909245625 / 2 ^ 51 / EARTH_RADIUS_KM) =
        of_int 4829277105719692 * pow2 ((- 12) - 52)"
    by (rule rnd64_eqI) (simp_all add: pow2_def EARTH_RADIUS_KM_def)
  then show ?thesis by (simp add: pow2_def)
qed

lemma north_from_180_north:
  "rnd64 (4503599473034571 / 2 ^ 52 * (2251799736519497 / 2 ^ 51)) = 9007198637406149 / 2 ^ 53"
proof -
  have "rnd64 (4503599473034571 / 2 ^ 52 * (2251799736519497 / 2 ^ 51)) =
        of_int 9007198637406149 * pow2 ((- 1) - 52)"
    by (rule rnd64_eqI) (simp_all add: pow2_def)
  then show ?thesis by (simp add: pow2_def)
qed

lemma north_from_180_east:
  "rnd64 (4829346250219215 / 2 ^ 64 * (4829277050555701 / 2 ^ 64)) = 2589290006335219 / 2 ^ 75"
proof -
  have "rnd64 (4829346250219215 / 2 ^ 64 * (4829277050555701 / 2 ^ 64)) =
        of_int 5178580012670438 * pow2 ((- 24) - 52)"
    by (rule rnd64_eqI) (simp_all add: pow2_def)
  then show ?thesis by (simp add: pow2_def)
qed

lemma north_from_180_east_cos:
  "rnd64 (2589290006335219 / 2 ^ 75 * 1) = 2589290006335219 / 2 ^ 75"
proof -
  have "rnd64 (2589290006335219 / 2 ^ 75 * 1) =
        of_int 5178580012670438 * pow2 ((- 24) - 52)"
    by (rule rnd64_eqI) (simp_all add: pow2_def)
  then show ?thesis by (simp add: pow2_def)
qed

lemma north_from_180_asin_argument:
  "rnd64 (9007198637406149 / 2 ^ 53 + 2589290006335219 / 2 ^ 75) = 4503599627370497 / 2 ^ 52"
proof -
  have "rnd64 (9007198637406149 / 2 ^ 53 + 2589290006335219 / 2 ^ 75) =
        of_int 4503599627370497 * pow2 (0 - 52)"
    by (rule rnd64_eqI) (simp_all add: pow2_def)
  then show ?thesis by (simp add: pow2_def)
qed

text \<open>
  Claim C10.  The returned longitude should always be strictly below 180, and a target
  on the antimeridian should come out as -180, as for an observer at longitude 180 who
  looks due north.  For the observer (89.985, 180), bearing 0 and distance 1.6679 km,
  which pass \<open>validateInput\<close>, the argument of \<open>Math.asin\<close> rounds to \<open>1 + 2^-52\<close> as
  well: the returned longitude is NaN, not -180.  The defect is the one of claim C6,
  and the hypotheses are of the same kind.
\<close>

theorem calculateTargetCoordinate_NaN_on_antimeridian:
  assumes "Math_sin M (3536529356201551 / 2 ^ 51) = 4503599473034571 / 2 ^ 52"
    and "Math_cos M (1207319276429923 / 2 ^ 62) = 2251799736519497 / 2 ^ 51"
    and "Math_cos M (3536529356201551 / 2 ^ 51) = 4829346250219215 / 2 ^ 64"
    and "Math_sin M (1207319276429923 / 2 ^ 62) = 4829277050555701 / 2 ^ 64"
    and "Math_cos M 0 = 1"
  shows "calculateTargetCoordinate_fl M (rnd64 89.985) 180 0 (rnd64 1.6679) = None"
proof -
  have arg: "rnd64 (rnd64 (Math_sin M (rnd64 (rnd64 89.985 * DEG_TO_RAD_fl)) *
                           Math_cos M (rnd64 (rnd64 1.6679 / EARTH_RADIUS_KM))) +
                    rnd64 (rnd64 (Math_cos M (rnd64 (rnd64 89.985 * DEG_TO_RAD_fl)) *
                                  Math_sin M (rnd64 (rnd64 1.6679 / EARTH_RADIUS_KM))) *
                           Math_cos M (rnd64 (0 * DEG_TO_RAD_fl))))
             = 4503599627370497 / 2 ^ 52"
    by (simp only: DEG_TO_RAD_fl_value assms
          north_from_180_lat north_from_180_dist north_from_180_lat1
          north_from_180_bearing north_from_180_delta north_from_180_north
          north_from_180_east north_from_180_east_cos north_from_180_asin_argument)
  show ?thesis
    unfolding calculateTargetCoordinate_fl_def Let_def arg
    by (simp add: asin_fl_def)
qed

theorem calculateTargetCoordinate_NaN_on_antimeridian_witness:
  "Math_sin nearest_lib (3536529356201551 / 2 ^ 51) = 4503599473034571 / 2 ^ 52 \<and>
   Math_cos nearest_lib (1207319276429923 / 2 ^ 62) = 2251799736519497 / 2 ^ 51 \<and>
   Math_cos nearest_lib (3536529356201551 / 2 ^ 51) = 4829346250219215 / 2 ^ 64 \<and>
   Math_sin nearest_lib (1207319276429923 / 2 ^ 62) = 4829277050555701 / 2 ^ 64 \<and>
   Math_cos nearest_lib 0 = 1 \<and>
   calculateTargetCoordinate_fl nearest_lib (rnd64 89.985) 180 0 (rnd64 1.6679) = None"
proof -
  have h: "Math_sin nearest_lib (3536529356201551 / 2 ^ 51) = 4503599473034571 / 2 ^ 52"
    "Math_cos nearest_lib (1207319276429923 / 2 ^ 62) = 2251799736519497 / 2 ^ 51"
    "Math_cos nearest_lib (3536529356201551 / 2 ^ 51) = 4829346250219215 / 2 ^ 64"
    "Math_sin nearest_lib (1207319276429923 / 2 ^ 62) = 4829277050555701 / 2 ^ 64"
    "Math_cos nearest_lib 0 = 1"
    by (simp_all add: nearest_lib_def sin_table_def cos_table_def)
  from calculateTargetCoordinate_NaN_on_antimeridian [OF h] h show ?thesis by blast
qed

section \<open>The distance on doubles\<close>































end
